theory Spec2Isabelle
  imports Main "HOL-Library.Sublist"
begin

section \<open>Values that cross the boundary of startup.js\<close>

text \<open>
  The file \<^verbatim>\<open>src-electron/main-process/startup.js\<close> holds five entry points:
  \<^verbatim>\<open>startNormal\<close>, \<^verbatim>\<open>startSelfCheck\<close>, \<^verbatim>\<open>startGeneration\<close>,
  \<^verbatim>\<open>startSdkGeneration\<close> and \<^verbatim>\<open>clearDatabaseFile\<close>. Everything they call lives in
  other modules (db-api, env, zcl-loader, generation-engine, query-session, util, sdk-gen,
  http-server, window, args) or in Node and Electron (fs, console, app). The modules are
  parameters of the model; Node's \<^verbatim>\<open>fs\<close> is modelled on a map from paths to files.
\<close>

type_synonym path = string
type_synonym db_handle = nat
type_synonym package_id = nat
type_synonym session_id = nat
type_synonym port = nat

text \<open>What a JavaScript \<^verbatim>\<open>throw\<close> or a rejected promise carries.\<close>

datatype err = ENOENT path | EPERM path | Failure string

text \<open>The object the loaders resolve with: \<^verbatim>\<open>ctx.db\<close> and \<^verbatim>\<open>ctx.packageId\<close>.\<close>

record ctx =
  ctx_db :: db_handle
  ctx_packageId :: package_id

text \<open>
  The \<^verbatim>\<open>options\<close> object. A property that the caller's object does not have reads as
  \<^verbatim>\<open>undefined\<close>, which is \<open>None\<close> here; \<^verbatim>\<open>if (options.quit)\<close> tests truthiness.
\<close>

record options =
  options_quit :: "bool option"
  options_cleanDb :: "bool option"
  options_log :: "bool option"

definition truthy :: "bool option \<Rightarrow> bool" where
  "truthy v = (v = Some True)"

text \<open>The command line as module \<^verbatim>\<open>args.js\<close> exposes it.\<close>

record args =
  args_zclPropertiesFile :: path
  args_genTemplateJsonFile :: path
  args_noServer :: bool
  args_httpPort :: port

text \<open>
  The lines written with \<^verbatim>\<open>console.log\<close>, one constructor per template literal of the
  source, carrying the interpolated values:
  \<^item> \<open>StartingSelfCheck\<close>: "Starting self-check";
  \<^item> \<open>DatabaseInitialized\<close>, \<open>SchemaInitialized\<close>, \<open>ZclDataLoaded\<close>,
    \<open>GenerationTemplatesLoaded\<close>: the four progress lines of the self-check;
  \<^item> \<open>SelfCheckDone\<close>: "Self-check done!";
  \<^item> \<open>GenerationInformation output templates zcl\<close>: the three-line banner of a generation;
  \<^item> \<open>UsingInputFile f\<close>, \<open>UsingEmptyConfiguration\<close>;
  \<^item> \<open>LandingPageUrl p\<close>: "url: http://localhost:p/index.html".
\<close>

datatype line =
    StartingSelfCheck
  | DatabaseInitialized
  | SchemaInitialized
  | ZclDataLoaded
  | GenerationTemplatesLoaded
  | SelfCheckDone
  | GenerationInformation path path path
  | UsingInputFile path
  | UsingEmptyConfiguration
  | LandingPageUrl port

text \<open>The two messages of \<^verbatim>\<open>clearDatabaseFile\<close> sent to \<^verbatim>\<open>env.logWarning\<close>.\<close>

datatype warning =
    DeletingOldBackupFile path
  | DatabaseRestartRequested path path

section \<open>The trace of an invocation\<close>

text \<open>
  Every call that leaves startup.js is one event, in the order in which the calls are made.
  A call that can fail carries what it answered: \<open>Inl e\<close> when it threw or rejected with
  \<open>e\<close>, \<open>Inr v\<close> when it returned or resolved with \<open>v\<close>.
  \<open>UnhandledRejection e\<close> marks the place where a promise that rejects with \<open>e\<close> is
  dropped, so that nobody handles the rejection.
\<close>

datatype event =
    ConsoleLog line
  | LogInitStdout
  | LogInfo string
  | LogWarning warning
  | LogError err
  | AppQuit
  | DockHide
  | ExistsSync path bool
  | UnlinkSync path "err + unit"
  | RenameSync path path "err + unit"
  | InitDatabase path "err + db_handle"
  | ResolveMainDatabase db_handle "err + db_handle"
  | LoadSchema db_handle path string "err + db_handle"
  | LoadZcl db_handle path "err + ctx"
  | LoadTemplates db_handle path "err + ctx"
  | CreateBlankSession db_handle "err + session_id"
  | InitializeSessionPackage db_handle session_id "err + session_id"
  | GenerateAndWriteFiles db_handle session_id package_id path "bool option" "err + unit"
  | RunSdkGeneration db_handle path "err + unit"
  | InitHttpServer db_handle port "err + unit"
  | InitializeElectronUi port string "err + unit"
  | UnhandledRejection err

section \<open>The world outside: files and the state of the other modules\<close>

text \<open>
  A file has a content and may be locked: a locked file is one the operating system refuses
  to delete or rename (no permission, or open on a platform that locks open files).
  \<open>hidden\<close> is whatever else the other modules keep: the rows of the database, the main
  database handle of env.js, the port of the HTTP server.
\<close>

record file_entry =
  content :: string
  locked :: bool

record 'x sys =
  files :: "path \<rightharpoonup> file_entry"
  hidden :: 'x

record 'x state =
  sys :: "'x sys"
  trace :: "event list"

text \<open>
  The modules that startup.js requires. An asynchronous function answers with an error or
  a value and the new outside world; the three getters of env.js are constants of a run.
  \<^verbatim>\<open>windowJs.initializeElectronUi\<close> is the one call whose result startup.js does not use:
  it answers \<open>Inl e\<close> when it throws \<open>e\<close>, \<open>Inr None\<close> when it returns, and
  \<open>Inr (Some e)\<close> when what it returns is a promise that rejects with \<open>e\<close>.
\<close>

record 'x collab =
  env_sqliteFile :: "string option \<Rightarrow> path"
  env_schemaFile :: path
  env_zapVersion :: string
  env_mainDatabase :: "'x sys \<Rightarrow> db_handle"
  env_resolveMainDatabase :: "db_handle \<Rightarrow> 'x sys \<Rightarrow> (err + db_handle) \<times> 'x sys"
  dbApi_initDatabase :: "path \<Rightarrow> 'x sys \<Rightarrow> (err + db_handle) \<times> 'x sys"
  dbApi_loadSchema :: "db_handle \<Rightarrow> path \<Rightarrow> string \<Rightarrow> 'x sys \<Rightarrow> (err + db_handle) \<times> 'x sys"
  zclLoader_loadZcl :: "db_handle \<Rightarrow> path \<Rightarrow> 'x sys \<Rightarrow> (err + ctx) \<times> 'x sys"
  generatorEngine_loadTemplates :: "db_handle \<Rightarrow> path \<Rightarrow> 'x sys \<Rightarrow> (err + ctx) \<times> 'x sys"
  generatorEngine_generateAndWriteFiles ::
    "db_handle \<Rightarrow> session_id \<Rightarrow> package_id \<Rightarrow> path \<Rightarrow> bool option \<Rightarrow> 'x sys \<Rightarrow> (err + unit) \<times> 'x sys"
  querySession_createBlankSession :: "db_handle \<Rightarrow> 'x sys \<Rightarrow> (err + session_id) \<times> 'x sys"
  util_initializeSessionPackage ::
    "db_handle \<Rightarrow> session_id \<Rightarrow> 'x sys \<Rightarrow> (err + session_id) \<times> 'x sys"
  sdkGen_runSdkGeneration :: "db_handle \<Rightarrow> path \<Rightarrow> 'x sys \<Rightarrow> (err + unit) \<times> 'x sys"
  httpServer_initHttpServer :: "db_handle \<Rightarrow> port \<Rightarrow> 'x sys \<Rightarrow> (err + unit) \<times> 'x sys"
  httpServer_httpServerPort :: "'x sys \<Rightarrow> port"
  windowJs_initializeElectronUi :: "port \<Rightarrow> string \<Rightarrow> 'x sys \<Rightarrow> (err + err option) \<times> 'x sys"
  app_dock :: bool

section \<open>Promises and calls\<close>

text \<open>
  A promise chain of one invocation runs its callbacks one after the other on the state
  the previous one left. \<open>then_p p f\<close> is \<^verbatim>\<open>p.then(f)\<close>: \<open>f\<close> runs on the value of
  \<open>p\<close> when \<open>p\<close> is fulfilled, and is skipped when \<open>p\<close> is rejected.
  \<open>catch_p p h\<close> is \<^verbatim>\<open>p.catch(h)\<close>.
\<close>

type_synonym ('x, 'a) promise = "'x state \<Rightarrow> (err + 'a) \<times> 'x state"

definition then_p :: "('x, 'a) promise \<Rightarrow> ('a \<Rightarrow> ('x, 'b) promise) \<Rightarrow> ('x, 'b) promise" where
  "then_p p f s = (case p s of (Inl e, s') \<Rightarrow> (Inl e, s') | (Inr a, s') \<Rightarrow> f a s')"

definition catch_p :: "('x, 'a) promise \<Rightarrow> (err \<Rightarrow> ('x, 'a) promise) \<Rightarrow> ('x, 'a) promise" where
  "catch_p p h s = (case p s of (Inl e, s') \<Rightarrow> h e s' | (Inr a, s') \<Rightarrow> (Inr a, s'))"

text \<open>A call with no answer to wait for: a line on the console, a log entry, \<^verbatim>\<open>app.quit()\<close>.\<close>

definition emit :: "event \<Rightarrow> 'x state \<Rightarrow> 'x state" where
  "emit ev s = s\<lparr>trace := trace s @ [ev]\<rparr>"

text \<open>A call into another module: it acts on the outside world and its answer is traced.\<close>

definition call ::
  "((err + 'a) \<Rightarrow> event) \<Rightarrow> ('x sys \<Rightarrow> (err + 'a) \<times> 'x sys) \<Rightarrow> ('x, 'a) promise" where
  "call ev f s = (case f (sys s) of (r, x) \<Rightarrow> (r, \<lparr>sys = x, trace = trace s @ [ev r]\<rparr>))"

text \<open>\<^verbatim>\<open>if (b) stmt\<close> for a statement that cannot fail.\<close>

definition if_stmt :: "bool \<Rightarrow> ('x state \<Rightarrow> 'x state) \<Rightarrow> 'x state \<Rightarrow> 'x state" where
  "if_stmt b stmt s = (if b then stmt s else s)"

definition console_log :: "line \<Rightarrow> 'x state \<Rightarrow> 'x state" where
  "console_log l = emit (ConsoleLog l)"

definition env_logError :: "err \<Rightarrow> 'x state \<Rightarrow> 'x state" where
  "env_logError e = emit (LogError e)"

definition env_logWarning :: "warning \<Rightarrow> 'x state \<Rightarrow> 'x state" where
  "env_logWarning m = emit (LogWarning m)"

definition env_logInfo :: "string \<Rightarrow> 'x state \<Rightarrow> 'x state" where
  "env_logInfo m = emit (LogInfo m)"

definition env_logInitStdout :: "'x state \<Rightarrow> 'x state" where
  "env_logInitStdout = emit LogInitStdout"

definition app_quit :: "'x state \<Rightarrow> 'x state" where
  "app_quit = emit AppQuit"

definition app_dock_hide :: "'x state \<Rightarrow> 'x state" where
  "app_dock_hide = emit DockHide"

text \<open>
  The handler every chain of the file ends with:
  \<^verbatim>\<open>.catch((err) => { env.logError(err); throw err })\<close>.
\<close>

definition log_and_rethrow :: "err \<Rightarrow> ('x, 'a) promise" where
  "log_and_rethrow e s = (Inl e, env_logError e s)"

subsection \<open>Node's fs\<close>

text \<open>
  \<^verbatim>\<open>fs.existsSync\<close> never throws. \<^verbatim>\<open>fs.unlinkSync\<close> throws on a path that has no file
  and on a locked file. \<^verbatim>\<open>fs.renameSync\<close> throws when the old path has no file or when
  either file is locked, and otherwise moves the file, replacing one at the new path.
\<close>

definition fs_existsSync :: "path \<Rightarrow> 'x state \<Rightarrow> bool \<times> 'x state" where
  "fs_existsSync p s = (let b = (files (sys s) p \<noteq> None) in (b, emit (ExistsSync p b) s))"

definition unlink :: "path \<Rightarrow> 'x sys \<Rightarrow> (err + unit) \<times> 'x sys" where
  "unlink p x =
     (case files x p of
        None \<Rightarrow> (Inl (ENOENT p), x)
      | Some f \<Rightarrow>
          if locked f then (Inl (EPERM p), x)
          else (Inr (), x\<lparr>files := (files x)(p := None)\<rparr>))"

definition fs_unlinkSync :: "path \<Rightarrow> ('x, unit) promise" where
  "fs_unlinkSync p = call (UnlinkSync p) (unlink p)"

definition rename :: "path \<Rightarrow> path \<Rightarrow> 'x sys \<Rightarrow> (err + unit) \<times> 'x sys" where
  "rename old new x =
     (case files x old of
        None \<Rightarrow> (Inl (ENOENT old), x)
      | Some f \<Rightarrow>
          if locked f \<or> (case files x new of None \<Rightarrow> False | Some g \<Rightarrow> locked g)
          then (Inl (EPERM old), x)
          else (Inr (), x\<lparr>files := (files x)(old := None, new := Some f)\<rparr>))"

definition fs_renameSync :: "path \<Rightarrow> path \<Rightarrow> ('x, unit) promise" where
  "fs_renameSync old new = call (RenameSync old new) (rename old new)"

section \<open>What the caller of an entry point gets\<close>

text \<open>
  An entry point throws, or returns the promise of its chain (here with the way the promise
  settles), or returns \<^verbatim>\<open>undefined\<close>. A chain whose promise is not returned is dropped:
  when it rejects, nobody handles the rejection.
\<close>

datatype ret = Threw err | ReturnsPromise "err + unit" | ReturnsUndefined

definition dropped :: "(err + 'a) \<times> 'x state \<Rightarrow> 'x state" where
  "dropped rs = (case rs of (Inl e, s) \<Rightarrow> emit (UnhandledRejection e) s | (Inr a, s) \<Rightarrow> s)"

section \<open>Default parameters and the removal of the database file\<close>

text \<open>
  A default parameter value stands in only for an argument that is omitted (\<open>None\<close>), never
  for a property that the caller's object lacks. The three defaults of the file:
  \<^verbatim>\<open>startSelfCheck(options = { log: true })\<close>,
  \<^verbatim>\<open>startGeneration(..., options = { quit: true, cleanDb: true, log: true })\<close> and
  \<^verbatim>\<open>startSdkGeneration(..., options = { quit: true, cleanDb: true })\<close>.
\<close>

definition default_arg :: "'a \<Rightarrow> 'a option \<Rightarrow> 'a" where
  "default_arg d v = (case v of None \<Rightarrow> d | Some given \<Rightarrow> given)"

definition startSelfCheck_default :: options where
  "startSelfCheck_default = \<lparr>options_quit = None, options_cleanDb = None, options_log = Some True\<rparr>"

definition startGeneration_default :: options where
  "startGeneration_default =
     \<lparr>options_quit = Some True, options_cleanDb = Some True, options_log = Some True\<rparr>"

definition startSdkGeneration_default :: options where
  "startSdkGeneration_default =
     \<lparr>options_quit = Some True, options_cleanDb = Some True, options_log = None\<rparr>"

text \<open>
  The statement \<^verbatim>\<open>if (options.cleanDb && fs.existsSync(dbFile)) fs.unlinkSync(dbFile)\<close>
  of \<^verbatim>\<open>startGeneration\<close> and \<^verbatim>\<open>startSdkGeneration\<close>: the existence check is made only
  when the flag is truthy. \<^verbatim>\<open>startSelfCheck\<close> has the statement without the flag. It runs
  in the caller's turn, before the chain: a throw of \<^verbatim>\<open>fs.unlinkSync\<close> goes straight to
  the caller.
\<close>

definition unlink_if_exists :: "bool \<Rightarrow> path \<Rightarrow> ('x, unit) promise" where
  "unlink_if_exists flag dbFile s =
     (if flag
      then (case fs_existsSync dbFile s of
              (True, s') \<Rightarrow> fs_unlinkSync dbFile s'
            | (False, s') \<Rightarrow> (Inr (), s'))
      else (Inr (), s))"

section \<open>Calls into the other modules\<close>

text \<open>
  Each function of another module that startup.js calls and that may fail, as a traced call.
  All but \<^verbatim>\<open>dbApi.initDatabase\<close> are called inside a callback of the chain. A callback
  that returns what the call returned rejects the chain when the call throws and when its
  promise is rejected; every such call below answers \<open>Inl\<close> in both cases.
  \<^verbatim>\<open>dbApi.initDatabase\<close>, which starts the chain, is taken to fail by rejecting its promise
  and never by throwing.
\<close>

definition initDatabase :: "'x collab \<Rightarrow> path \<Rightarrow> ('x, db_handle) promise" where
  "initDatabase c sqlitePath = call (InitDatabase sqlitePath) (dbApi_initDatabase c sqlitePath)"

definition resolveMainDatabase :: "'x collab \<Rightarrow> db_handle \<Rightarrow> ('x, db_handle) promise" where
  "resolveMainDatabase c db = call (ResolveMainDatabase db) (env_resolveMainDatabase c db)"

definition loadSchema :: "'x collab \<Rightarrow> db_handle \<Rightarrow> path \<Rightarrow> string \<Rightarrow> ('x, db_handle) promise" where
  "loadSchema c db schemaPath zapVersion =
     call (LoadSchema db schemaPath zapVersion) (dbApi_loadSchema c db schemaPath zapVersion)"

definition loadZcl :: "'x collab \<Rightarrow> db_handle \<Rightarrow> path \<Rightarrow> ('x, ctx) promise" where
  "loadZcl c db metadataFile = call (LoadZcl db metadataFile) (zclLoader_loadZcl c db metadataFile)"

definition loadTemplates :: "'x collab \<Rightarrow> db_handle \<Rightarrow> path \<Rightarrow> ('x, ctx) promise" where
  "loadTemplates c db genTemplatesJson =
     call (LoadTemplates db genTemplatesJson) (generatorEngine_loadTemplates c db genTemplatesJson)"

definition createBlankSession :: "'x collab \<Rightarrow> db_handle \<Rightarrow> ('x, session_id) promise" where
  "createBlankSession c db = call (CreateBlankSession db) (querySession_createBlankSession c db)"

definition initializeSessionPackage ::
  "'x collab \<Rightarrow> db_handle \<Rightarrow> session_id \<Rightarrow> ('x, session_id) promise" where
  "initializeSessionPackage c db sessionId =
     call (InitializeSessionPackage db sessionId) (util_initializeSessionPackage c db sessionId)"

definition generateAndWriteFiles ::
  "'x collab \<Rightarrow> db_handle \<Rightarrow> session_id \<Rightarrow> package_id \<Rightarrow> path \<Rightarrow> bool option \<Rightarrow> ('x, unit) promise" where
  "generateAndWriteFiles c db sessionId packageId outputDirectory logging =
     call (GenerateAndWriteFiles db sessionId packageId outputDirectory logging)
       (generatorEngine_generateAndWriteFiles c db sessionId packageId outputDirectory logging)"

definition runSdkGeneration :: "'x collab \<Rightarrow> db_handle \<Rightarrow> path \<Rightarrow> ('x, unit) promise" where
  "runSdkGeneration c db generationDir =
     call (RunSdkGeneration db generationDir) (sdkGen_runSdkGeneration c db generationDir)"

definition initHttpServer :: "'x collab \<Rightarrow> db_handle \<Rightarrow> port \<Rightarrow> ('x, unit) promise" where
  "initHttpServer c db httpPort = call (InitHttpServer db httpPort) (httpServer_initHttpServer c db httpPort)"

text \<open>
  The event of \<^verbatim>\<open>windowJs.initializeElectronUi\<close> says whether the call threw or returned;
  the value of the call is what it returned, a promise that rejects or anything else.
\<close>

definition initializeElectronUi :: "'x collab \<Rightarrow> port \<Rightarrow> string \<Rightarrow> ('x, err option) promise" where
  "initializeElectronUi c httpPort uiMode =
     call (\<lambda>answer. InitializeElectronUi httpPort uiMode
             (case answer of Inl e \<Rightarrow> Inl e | Inr returned \<Rightarrow> Inr ()))
       (windowJs_initializeElectronUi c httpPort uiMode)"

text \<open>
  A call as a statement of its own, \<^verbatim>\<open>f(x)\<close> with no \<^verbatim>\<open>return\<close>: a throw goes on as a
  throw, and what the call returned is dropped. When that is a promise that rejects, the
  rejection stays unhandled and the statements after the call run all the same.
\<close>

definition discard :: "('x, err option) promise \<Rightarrow> ('x, unit) promise" where
  "discard p s =
     (case p s of
        (Inl e, s') \<Rightarrow> (Inl e, s')
      | (Inr returned, s') \<Rightarrow>
          (Inr (), (case returned of None \<Rightarrow> s' | Some e \<Rightarrow> emit (UnhandledRejection e) s')))"

section \<open>startNormal\<close>

text \<open>
  The chain of \<^verbatim>\<open>startNormal\<close>, one \<open>then_p\<close> per \<^verbatim>\<open>.then\<close> of the source. The
  callback that shows the UI calls \<^verbatim>\<open>windowJs.initializeElectronUi\<close> without returning its
  result. The function has no \<^verbatim>\<open>return\<close>: the chain is dropped and the caller gets
  \<^verbatim>\<open>undefined\<close>.
\<close>

definition startNormal_chain ::
  "'x collab \<Rightarrow> args \<Rightarrow> bool \<Rightarrow> bool \<Rightarrow> string \<Rightarrow> ('x, unit) promise" where
  "startNormal_chain c a uiEnabled showUrl uiMode =
     catch_p
       (then_p (then_p (then_p (then_p (then_p (then_p (then_p
          (initDatabase c (env_sqliteFile c None))
          (\<lambda>db. resolveMainDatabase c db))
          (\<lambda>db. loadSchema c db (env_schemaFile c) (env_zapVersion c)))
          (\<lambda>db. loadZcl c db (args_zclPropertiesFile a)))
          (\<lambda>ctx. loadTemplates c (ctx_db ctx) (args_genTemplateJsonFile a)))
          (\<lambda>ctx. if \<not> args_noServer a then initHttpServer c (ctx_db ctx) (args_httpPort a)
                  else (\<lambda>s. (Inr (), s))))
          (\<lambda>_ s. if uiEnabled
                  then discard (initializeElectronUi c (httpServer_httpServerPort c (sys s)) uiMode) s
                  else (Inr (),
                    if_stmt (showUrl \<and> \<not> args_noServer a)
                      (\<lambda>s'. console_log (LandingPageUrl (httpServer_httpServerPort c (sys s'))) s')
                      (if_stmt (app_dock c) app_dock_hide s))))
          (\<lambda>_ s. (Inr (), if_stmt (args_noServer a) app_quit s)))
       log_and_rethrow"

definition startNormal ::
  "'x collab \<Rightarrow> args \<Rightarrow> bool \<Rightarrow> bool \<Rightarrow> string \<Rightarrow> 'x state \<Rightarrow> ret \<times> 'x state" where
  "startNormal c a uiEnabled showUrl uiMode s0 =
     (ReturnsUndefined, dropped (startNormal_chain c a uiEnabled showUrl uiMode s0))"

section \<open>startSelfCheck\<close>

definition startSelfCheck_chain :: "'x collab \<Rightarrow> args \<Rightarrow> options \<Rightarrow> path \<Rightarrow> ('x, unit) promise" where
  "startSelfCheck_chain c a options dbFile =
     catch_p
       (then_p (then_p (then_p (then_p (then_p
          (initDatabase c dbFile)
          (\<lambda>db s. resolveMainDatabase c db
                    (if_stmt (truthy (options_log options)) (console_log DatabaseInitialized) s)))
          (\<lambda>db. loadSchema c db (env_schemaFile c) (env_zapVersion c)))
          (\<lambda>db s. loadZcl c db (args_zclPropertiesFile a)
                    (if_stmt (truthy (options_log options)) (console_log SchemaInitialized) s)))
          (\<lambda>ctx s. loadTemplates c (ctx_db ctx) (args_genTemplateJsonFile a)
                     (if_stmt (truthy (options_log options)) (console_log ZclDataLoaded) s)))
          (\<lambda>ctx s. (Inr (),
             app_quit
               (if_stmt (truthy (options_log options)) (console_log SelfCheckDone)
                 (if_stmt (truthy (options_log options)) (console_log GenerationTemplatesLoaded) s)))))
       log_and_rethrow"

definition startSelfCheck ::
  "'x collab \<Rightarrow> args \<Rightarrow> options option \<Rightarrow> 'x state \<Rightarrow> ret \<times> 'x state" where
  "startSelfCheck c a options_arg s0 =
     (let options = default_arg startSelfCheck_default options_arg;
          s1 = env_logInitStdout s0;
          s2 = if_stmt (truthy (options_log options)) (console_log StartingSelfCheck) s1;
          dbFile = env_sqliteFile c (Some ''self-check'')
      in case unlink_if_exists True dbFile s2 of
           (Inl e, s3) \<Rightarrow> (Threw e, s3)
         | (Inr _, s3) \<Rightarrow> (ReturnsUndefined, dropped (startSelfCheck_chain c a options dbFile s3)))"

section \<open>startGeneration\<close>

text \<open>
  \<^verbatim>\<open>var packageId\<close> is assigned in the callback that follows \<^verbatim>\<open>loadTemplates\<close> and read
  in the callback that calls \<^verbatim>\<open>generateAndWriteFiles\<close>; the callbacks from the assignment
  on stand under its binding. \<^verbatim>\<open>env.mainDatabase()\<close> is read when its callback runs.
\<close>

definition startGeneration_chain ::
  "'x collab \<Rightarrow> path \<Rightarrow> path \<Rightarrow> path \<Rightarrow> options \<Rightarrow> path \<Rightarrow> ('x, unit) promise" where
  "startGeneration_chain c output genTemplateJsonFile zclProperties options dbFile =
     catch_p
       (then_p (then_p (then_p (then_p (then_p
          (initDatabase c dbFile)
          (\<lambda>db. resolveMainDatabase c db))
          (\<lambda>db. loadSchema c db (env_schemaFile c) (env_zapVersion c)))
          (\<lambda>db. loadZcl c db zclProperties))
          (\<lambda>ctx. loadTemplates c (ctx_db ctx) genTemplateJsonFile))
          (\<lambda>ctx. let packageId = ctx_packageId ctx in
             then_p (then_p (then_p
               (\<lambda>s. createBlankSession c (env_mainDatabase c (sys s)) s)
               (\<lambda>sessionId s. initializeSessionPackage c (env_mainDatabase c (sys s)) sessionId s))
               (\<lambda>sessionId s.
                  generateAndWriteFiles c (env_mainDatabase c (sys s)) sessionId packageId output
                    (options_log options) s))
               (\<lambda>_ s. (Inr (), if_stmt (truthy (options_quit options)) app_quit s))))
       log_and_rethrow"

text \<open>\<^verbatim>\<open>zapFile\<close> is only reported: \<^verbatim>\<open>zapFile != null\<close> holds for a given path.\<close>

definition startGeneration ::
  "'x collab \<Rightarrow> path \<Rightarrow> path \<Rightarrow> path \<Rightarrow> path option \<Rightarrow> options option \<Rightarrow> 'x state \<Rightarrow> ret \<times> 'x state" where
  "startGeneration c output genTemplateJsonFile zclProperties zapFile options_arg s0 =
     (let options = default_arg startGeneration_default options_arg;
          s1 = if_stmt (truthy (options_log options))
                 (console_log (GenerationInformation output genTemplateJsonFile zclProperties)) s0;
          s2 = (case zapFile of
                  Some z \<Rightarrow> if_stmt (truthy (options_log options)) (console_log (UsingInputFile z)) s1
                | None \<Rightarrow> if_stmt (truthy (options_log options)) (console_log UsingEmptyConfiguration) s1);
          dbFile = env_sqliteFile c (Some ''generate'')
      in case unlink_if_exists (truthy (options_cleanDb options)) dbFile s2 of
           (Inl e, s3) \<Rightarrow> (Threw e, s3)
         | (Inr _, s3) \<Rightarrow>
             (case startGeneration_chain c output genTemplateJsonFile zclProperties options dbFile s3 of
                (r, s4) \<Rightarrow> (ReturnsPromise r, s4)))"

section \<open>startSdkGeneration\<close>

text \<open>
  \<^verbatim>\<open>zclPropertiesFilePath ? zclPropertiesFilePath : args.zclPropertiesFile\<close>: an omitted
  path and the empty string are both falsy.
\<close>

definition startSdkGeneration_chain ::
  "'x collab \<Rightarrow> args \<Rightarrow> path \<Rightarrow> path option \<Rightarrow> options \<Rightarrow> path \<Rightarrow> ('x, unit) promise" where
  "startSdkGeneration_chain c a generationDir zclPropertiesFilePath options dbFile =
     catch_p
       (then_p (then_p (then_p (then_p (then_p
          (initDatabase c dbFile)
          (\<lambda>db. resolveMainDatabase c db))
          (\<lambda>db. loadSchema c db (env_schemaFile c) (env_zapVersion c)))
          (\<lambda>db. loadZcl c db
                  (case zclPropertiesFilePath of
                     Some p \<Rightarrow> if p \<noteq> [] then p else args_zclPropertiesFile a
                   | None \<Rightarrow> args_zclPropertiesFile a)))
          (\<lambda>ctx. runSdkGeneration c (ctx_db ctx) generationDir))
          (\<lambda>res s. (Inr (), if_stmt (truthy (options_quit options)) app_quit s)))
       log_and_rethrow"

definition startSdkGeneration ::
  "'x collab \<Rightarrow> args \<Rightarrow> path \<Rightarrow> path option \<Rightarrow> options option \<Rightarrow> 'x state \<Rightarrow> ret \<times> 'x state" where
  "startSdkGeneration c a generationDir zclPropertiesFilePath options_arg s0 =
     (let options = default_arg startSdkGeneration_default options_arg;
          s1 = env_logInfo ''Start SDK generation...'' s0;
          dbFile = env_sqliteFile c (Some ''sdk-regen'')
      in case unlink_if_exists (truthy (options_cleanDb options)) dbFile s1 of
           (Inl e, s2) \<Rightarrow> (Threw e, s2)
         | (Inr _, s2) \<Rightarrow>
             (case startSdkGeneration_chain c a generationDir zclPropertiesFilePath options dbFile s2 of
                (r, s3) \<Rightarrow> (ReturnsPromise r, s3)))"

section \<open>clearDatabaseFile\<close>

definition clearDatabaseFile :: "'x collab \<Rightarrow> 'x state \<Rightarrow> ret \<times> 'x state" where
  "clearDatabaseFile c s0 =
     (let path = env_sqliteFile c None;
          pathBak = path @ ''~''
      in case fs_existsSync path s0 of
           (False, s1) \<Rightarrow> (ReturnsUndefined, s1)
         | (True, s1) \<Rightarrow>
             (case (case fs_existsSync pathBak s1 of
                      (True, s2) \<Rightarrow>
                        fs_unlinkSync pathBak (env_logWarning (DeletingOldBackupFile pathBak) s2)
                    | (False, s2) \<Rightarrow> (Inr (), s2)) of
                (Inl e, s3) \<Rightarrow> (Threw e, s3)
              | (Inr _, s3) \<Rightarrow>
                  (case fs_renameSync path pathBak
                          (env_logWarning (DatabaseRestartRequested path pathBak) s3) of
                     (Inl e, s4) \<Rightarrow> (Threw e, s4)
                   | (Inr _, s4) \<Rightarrow> (ReturnsUndefined, s4))))"

section \<open>Observations on a trace\<close>

text \<open>The error that a call answered with, if it failed.\<close>

definition err_of :: "err + 'a \<Rightarrow> err option" where
  "err_of r = (case r of Inl e \<Rightarrow> Some e | Inr v \<Rightarrow> None)"

primrec failure :: "event \<Rightarrow> err option" where
  "failure (ConsoleLog l) = None"
| "failure LogInitStdout = None"
| "failure (LogInfo m) = None"
| "failure (LogWarning m) = None"
| "failure (LogError e) = None"
| "failure AppQuit = None"
| "failure DockHide = None"
| "failure (ExistsSync p b) = None"
| "failure (UnlinkSync p r) = err_of r"
| "failure (RenameSync old new r) = err_of r"
| "failure (InitDatabase p r) = err_of r"
| "failure (ResolveMainDatabase db r) = err_of r"
| "failure (LoadSchema db p v r) = err_of r"
| "failure (LoadZcl db p r) = err_of r"
| "failure (LoadTemplates db p r) = err_of r"
| "failure (CreateBlankSession db r) = err_of r"
| "failure (InitializeSessionPackage db sid r) = err_of r"
| "failure (GenerateAndWriteFiles db sid pkg out lg r) = err_of r"
| "failure (RunSdkGeneration db dir r) = err_of r"
| "failure (InitHttpServer db p r) = err_of r"
| "failure (InitializeElectronUi p m r) = err_of r"
| "failure (UnhandledRejection e) = None"

text \<open>
  The stage that an event starts, with the path the stage works on. Console lines, log
  entries and existence checks start no stage.
\<close>

datatype step =
    EnsureFresh path
  | OpenDatabase path
  | RegisterMainDatabase
  | ApplySchema
  | LoadDomainMetadata path
  | LoadTemplatePackage path
  | CreateSession
  | InitializeSessionPackages
  | GenerateAndWrite path
  | RunSdkRegeneration path
  | StartServer
  | ShowUi
  | Quit

primrec step_of :: "event \<Rightarrow> step option" where
  "step_of (ConsoleLog l) = None"
| "step_of LogInitStdout = None"
| "step_of (LogInfo m) = None"
| "step_of (LogWarning m) = None"
| "step_of (LogError e) = None"
| "step_of AppQuit = Some Quit"
| "step_of DockHide = None"
| "step_of (ExistsSync p b) = None"
| "step_of (UnlinkSync p r) = Some (EnsureFresh p)"
| "step_of (RenameSync old new r) = None"
| "step_of (InitDatabase p r) = Some (OpenDatabase p)"
| "step_of (ResolveMainDatabase db r) = Some RegisterMainDatabase"
| "step_of (LoadSchema db p v r) = Some ApplySchema"
| "step_of (LoadZcl db p r) = Some (LoadDomainMetadata p)"
| "step_of (LoadTemplates db p r) = Some (LoadTemplatePackage p)"
| "step_of (CreateBlankSession db r) = Some CreateSession"
| "step_of (InitializeSessionPackage db sid r) = Some InitializeSessionPackages"
| "step_of (GenerateAndWriteFiles db sid pkg out lg r) = Some (GenerateAndWrite out)"
| "step_of (RunSdkGeneration db dir r) = Some (RunSdkRegeneration dir)"
| "step_of (InitHttpServer db p r) = Some StartServer"
| "step_of (InitializeElectronUi p m r) = Some ShowUi"
| "step_of (UnhandledRejection e) = None"

definition steps :: "event list \<Rightarrow> step list" where
  "steps evs = List.map_filter step_of evs"

text \<open>No stage starts after a call that failed.\<close>

fun each_after_success :: "event list \<Rightarrow> bool" where
  "each_after_success [] = True"
| "each_after_success (ev # evs) = ((failure ev = None \<or> steps evs = []) \<and> each_after_success evs)"

section \<open>A concrete installation\<close>

text \<open>
  Collaborators that always succeed, and a disk given by its unlocked files, on which the
  entry points can be run: \<open>initDatabase\<close> creates the database file and
  \<open>generateAndWriteFiles\<close> writes one file into the output directory.
\<close>

definition demo :: "unit collab" where
  "demo =
     \<lparr>env_sqliteFile = (\<lambda>suffix. case suffix of None \<Rightarrow> ''zap.sqlite'' | Some n \<Rightarrow> n @ ''.sqlite''),
      env_schemaFile = ''zap-schema.sql'',
      env_zapVersion = ''1.0'',
      env_mainDatabase = (\<lambda>x. 7),
      env_resolveMainDatabase = (\<lambda>db x. (Inr db, x)),
      dbApi_initDatabase =
        (\<lambda>p x. (Inr 7, x\<lparr>files := (files x)(p \<mapsto> \<lparr>content = ''sqlite'', locked = False\<rparr>)\<rparr>)),
      dbApi_loadSchema = (\<lambda>db p v x. (Inr db, x)),
      zclLoader_loadZcl = (\<lambda>db p x. (Inr \<lparr>ctx_db = db, ctx_packageId = 1\<rparr>, x)),
      generatorEngine_loadTemplates = (\<lambda>db p x. (Inr \<lparr>ctx_db = db, ctx_packageId = 2\<rparr>, x)),
      generatorEngine_generateAndWriteFiles =
        (\<lambda>db sid pkg out lg x.
           (Inr (), x\<lparr>files := (files x)(out @ ''/out.h'' \<mapsto> \<lparr>content = ''generated'', locked = False\<rparr>)\<rparr>)),
      querySession_createBlankSession = (\<lambda>db x. (Inr 3, x)),
      util_initializeSessionPackage = (\<lambda>db sid x. (Inr sid, x)),
      sdkGen_runSdkGeneration = (\<lambda>db dir x. (Inr (), x)),
      httpServer_initHttpServer = (\<lambda>db p x. (Inr (), x)),
      httpServer_httpServerPort = (\<lambda>x. 9070),
      windowJs_initializeElectronUi = (\<lambda>p m x. (Inr None, x)),
      app_dock = False\<rparr>"

definition disk :: "(path \<times> string) list \<Rightarrow> unit state" where
  "disk fs = \<lparr>sys = \<lparr>files = map_of (map (\<lambda>(p, t). (p, \<lparr>content = t, locked = False\<rparr>)) fs), hidden = ()\<rparr>,
             trace = []\<rparr>"

text \<open>A disk whose files are all locked.\<close>

definition disk_locked :: "(path \<times> string) list \<Rightarrow> unit state" where
  "disk_locked fs =
     \<lparr>sys = \<lparr>files = map_of (map (\<lambda>(p, t). (p, \<lparr>content = t, locked = True\<rparr>)) fs), hidden = ()\<rparr>,
      trace = []\<rparr>"

section \<open>What a generation is expected to do\<close>


definition generation_banner :: "options \<Rightarrow> path \<Rightarrow> path \<Rightarrow> path \<Rightarrow> path option \<Rightarrow> event list" where
  "generation_banner options output genTemplateJsonFile zclProperties zapFile =
     (if truthy (options_log options)
      then [ConsoleLog (GenerationInformation output genTemplateJsonFile zclProperties),
            ConsoleLog (case zapFile of Some z \<Rightarrow> UsingInputFile z | None \<Rightarrow> UsingEmptyConfiguration)]
      else [])"

definition removal_events :: "bool \<Rightarrow> path \<Rightarrow> 'x sys \<Rightarrow> event list" where
  "removal_events flag dbFile x =
     (if flag
      then (case files x dbFile of
              None \<Rightarrow> [ExistsSync dbFile False]
            | Some f \<Rightarrow> [ExistsSync dbFile True, UnlinkSync dbFile (Inr ())])
      else [])"

definition removed :: "bool \<Rightarrow> path \<Rightarrow> 'x sys \<Rightarrow> 'x sys" where
  "removed flag dbFile x = (if flag then x\<lparr>files := (files x)(dbFile := None)\<rparr> else x)"

text \<open>A command line for the concrete installation.\<close>

definition demo_args :: args where
  "demo_args =
     \<lparr>args_zclPropertiesFile = ''zcl-builtin.properties'',
      args_genTemplateJsonFile = ''templates-builtin.json'',
      args_noServer = False,
      args_httpPort = 9070\<rparr>"

section \<open>Package identifiers in a trace\<close>

text \<open>
  The package identifier that a call of \<^verbatim>\<open>loadTemplates\<close> resolved with, and the one that a
  call of \<^verbatim>\<open>generateAndWriteFiles\<close> was given.
\<close>

definition template_package :: "event \<Rightarrow> package_id option" where
  "template_package ev =
     (case ev of LoadTemplates db p (Inr loaded) \<Rightarrow> Some (ctx_packageId loaded) | _ \<Rightarrow> None)"

definition generated_package :: "event \<Rightarrow> package_id option" where
  "generated_package ev =
     (case ev of GenerateAndWriteFiles db sid pkg out lg r \<Rightarrow> Some pkg | _ \<Rightarrow> None)"

definition packages_loaded :: "event list \<Rightarrow> package_id list" where
  "packages_loaded evs = List.map_filter template_package evs"

definition packages_generated :: "event list \<Rightarrow> package_id list" where
  "packages_generated evs = List.map_filter generated_package evs"

section \<open>What a self-check prints first\<close>

definition selfcheck_banner :: "options \<Rightarrow> event list" where
  "selfcheck_banner options =
     LogInitStdout # (if truthy (options_log options) then [ConsoleLog StartingSelfCheck] else [])"

section \<open>Failure of a chain\<close>

text \<open>
  An event is calm when it is neither a call that failed nor a report of a failure. A run
  is rejected once with \<open>e\<close> when its last two events are a call that failed with \<open>e\<close>
  and the entry of \<open>e\<close> in the error log, after calm events only.
\<close>

definition calm :: "event \<Rightarrow> bool" where
  "calm ev =
     (failure ev = None \<and>
      (case ev of LogError e \<Rightarrow> False | UnhandledRejection e \<Rightarrow> False | _ \<Rightarrow> True))"

definition rejected_once :: "err \<Rightarrow> event list \<Rightarrow> bool" where
  "rejected_once e evs =
     (case rev evs of
        logged # failed # before \<Rightarrow>
          logged = LogError e \<and> failure failed = Some e \<and> list_all calm before
      | _ \<Rightarrow> False)"

text \<open>Collaborators of which one fails: the schema cannot be loaded.\<close>

definition demo_schema_fails :: "unit collab" where
  "demo_schema_fails = demo\<lparr>dbApi_loadSchema := (\<lambda>db p v x. (Inl (Failure ''schema''), x))\<rparr>"

text \<open>Collaborators of which the window module returns a promise that rejects.\<close>

definition demo_window_rejects :: "unit collab" where
  "demo_window_rejects =
     demo\<lparr>windowJs_initializeElectronUi := (\<lambda>p m x. (Inr (Some (Failure ''window'')), x))\<rparr>"

section \<open>What a self-check is expected to do\<close>

text \<open>
  The stages of a self-check, which end with \<^verbatim>\<open>app.quit()\<close>; the lines on the console; and
  the progress line that goes with a call that succeeded. \<open>announced lg evs\<close> says that in
  \<open>evs\<close> each successful call with a progress line is directly followed by that line
  exactly when \<open>lg\<close> holds.
\<close>

definition selfcheck_plan :: "bool \<Rightarrow> path \<Rightarrow> path \<Rightarrow> path \<Rightarrow> step list" where
  "selfcheck_plan removes dbFile zclPropertiesFile genTemplateJsonFile =
     (if removes then [EnsureFresh dbFile] else []) @
     [OpenDatabase dbFile, RegisterMainDatabase, ApplySchema, LoadDomainMetadata zclPropertiesFile,
      LoadTemplatePackage genTemplateJsonFile, Quit]"

definition line_of :: "event \<Rightarrow> line option" where
  "line_of ev = (case ev of ConsoleLog l \<Rightarrow> Some l | _ \<Rightarrow> None)"

definition lines :: "event list \<Rightarrow> line list" where
  "lines evs = List.map_filter line_of evs"

definition progress_of :: "event \<Rightarrow> line option" where
  "progress_of ev =
     (case ev of
        InitDatabase p (Inr db) \<Rightarrow> Some DatabaseInitialized
      | LoadSchema db p v (Inr db') \<Rightarrow> Some SchemaInitialized
      | LoadZcl db p (Inr loaded) \<Rightarrow> Some ZclDataLoaded
      | LoadTemplates db p (Inr loaded) \<Rightarrow> Some GenerationTemplatesLoaded
      | _ \<Rightarrow> None)"

definition progress :: "event list \<Rightarrow> line list" where
  "progress evs = List.map_filter progress_of evs"

fun announced :: "bool \<Rightarrow> event list \<Rightarrow> bool" where
  "announced lg [] = True"
| "announced lg (ev # evs) =
     ((case progress_of ev of None \<Rightarrow> True | Some l \<Rightarrow> (take 1 evs = [ConsoleLog l]) = lg) \<and>
      announced lg evs)"

section \<open>Symbolic execution of the entry points\<close>

lemma trace_emit [simp]: "trace (emit ev s) = trace s @ [ev]"
  by (simp add: emit_def)

lemma sys_emit [simp]: "sys (emit ev s) = sys s"
  by (simp add: emit_def)

lemmas sinks = console_log_def env_logError_def env_logWarning_def env_logInfo_def
  env_logInitStdout_def app_quit_def app_dock_hide_def if_stmt_def

lemmas calls = initDatabase_def resolveMainDatabase_def loadSchema_def loadZcl_def loadTemplates_def
  createBlankSession_def initializeSessionPackage_def generateAndWriteFiles_def runSdkGeneration_def
  initHttpServer_def initializeElectronUi_def

lemmas fs_ops = fs_existsSync_def fs_unlinkSync_def fs_renameSync_def unlink_def rename_def call_def

lemma bak_neq [simp]: "p @ ''~'' \<noteq> p" "p \<noteq> p @ ''~''"
  by simp_all


lemma clearDatabaseFile_absent:
  "files (sys s) (env_sqliteFile c None) = None \<Longrightarrow>
     clearDatabaseFile c s = (ReturnsUndefined, emit (ExistsSync (env_sqliteFile c None) False) s)"
  by (simp add: clearDatabaseFile_def fs_existsSync_def Let_def)

lemma clearDatabaseFile_present:
  "files (sys s) (env_sqliteFile c None) = Some f \<Longrightarrow>
     clearDatabaseFile c s =
       (let path = env_sqliteFile c None; pathBak = path @ ''~'';
            s1 = emit (ExistsSync path True) s
        in case files (sys s) pathBak of
             None \<Rightarrow>
               (let s2 = env_logWarning (DatabaseRestartRequested path pathBak) (emit (ExistsSync pathBak False) s1)
                in if locked f
                   then (Threw (EPERM path), emit (RenameSync path pathBak (Inl (EPERM path))) s2)
                   else (ReturnsUndefined,
                         \<lparr>sys = (sys s)\<lparr>files := (files (sys s))(path := None, pathBak := Some f)\<rparr>,
                          trace = trace s2 @ [RenameSync path pathBak (Inr ())]\<rparr>))
           | Some old \<Rightarrow>
               (let s2 = env_logWarning (DeletingOldBackupFile pathBak) (emit (ExistsSync pathBak True) s1)
                in if locked old
                   then (Threw (EPERM pathBak), emit (UnlinkSync pathBak (Inl (EPERM pathBak))) s2)
                   else
                     (let s3 = env_logWarning (DatabaseRestartRequested path pathBak)
                                 (emit (UnlinkSync pathBak (Inr ())) s2)
                      in if locked f
                         then (Threw (EPERM path),
                               \<lparr>sys = (sys s)\<lparr>files := (files (sys s))(pathBak := None)\<rparr>,
                                trace = trace s3 @ [RenameSync path pathBak (Inl (EPERM path))]\<rparr>)
                         else (ReturnsUndefined,
                               \<lparr>sys = (sys s)\<lparr>files := (files (sys s))(path := None, pathBak := Some f)\<rparr>,
                                trace = trace s3 @ [RenameSync path pathBak (Inr ())]\<rparr>))))"
  unfolding clearDatabaseFile_def fs_ops sinks Let_def
  apply (cases "files (sys s) (env_sqliteFile c None @ ''~'')")
   apply (simp_all add: emit_def fun_upd_twist)
  done





text \<open>
  C7, as amended. \<^verbatim>\<open>clearDatabaseFile\<close> renames only the live file to the backup name,
  as its last call, after the existence check of the live file answered true and the existence
  check of the backup was made, whatever that one answered; when the backup exists it has been
  deleted in between; a call that throws leaves the live file as it was.
\<close>

theorem clearDatabaseFile_rename_last:
  assumes run: "clearDatabaseFile c s = (r, s')"
  shows
    "(\<exists>evs. trace s' = trace s @ evs \<and>
        (\<forall>old new res. RenameSync old new res \<in> set evs \<longrightarrow>
           old = env_sqliteFile c None \<and> new = env_sqliteFile c None @ ''~'' \<and>
           (\<exists>mid. evs =
              [ExistsSync (env_sqliteFile c None) True,
               ExistsSync (env_sqliteFile c None @ ''~'')
                 (files (sys s) (env_sqliteFile c None @ ''~'') \<noteq> None)] @ mid @
              [RenameSync old new res] \<and>
              (files (sys s) (env_sqliteFile c None @ ''~'') \<noteq> None \<longrightarrow>
                 UnlinkSync (env_sqliteFile c None @ ''~'') (Inr ()) \<in> set mid)))) \<and>
     ((\<exists>e. r = Threw e) \<longrightarrow>
        files (sys s') (env_sqliteFile c None) = files (sys s) (env_sqliteFile c None))"
proof (cases "files (sys s) (env_sqliteFile c None)")
  case None
  from run show ?thesis
    by (auto simp: clearDatabaseFile_absent [OF None])
next
  case (Some f)
  from run Some show ?thesis
    unfolding clearDatabaseFile_present [OF Some] Let_def
    by (auto simp: env_logWarning_def split: option.splits if_splits)
qed

theorem clearDatabaseFile_rename_last_witness:
  "(\<exists>mid. trace (snd (clearDatabaseFile demo (disk [(''zap.sqlite'', ''live''), (''zap.sqlite~'', ''old'')]))) =
         [ExistsSync ''zap.sqlite'' True, ExistsSync ''zap.sqlite~'' True] @ mid @
         [RenameSync ''zap.sqlite'' ''zap.sqlite~'' (Inr ())] \<and>
       UnlinkSync ''zap.sqlite~'' (Inr ()) \<in> set mid) \<and>
   fst (clearDatabaseFile demo (disk_locked [(''zap.sqlite'', ''live'')])) = Threw (EPERM ''zap.sqlite'') \<and>
   files (sys (snd (clearDatabaseFile demo (disk_locked [(''zap.sqlite'', ''live'')])))) ''zap.sqlite'' =
     Some \<lparr>content = ''live'', locked = True\<rparr>"
proof -
  have path: "env_sqliteFile demo None = ''zap.sqlite''" by (simp add: demo_def)
  have renamed: "\<exists>mid. trace (snd (clearDatabaseFile demo
        (disk [(''zap.sqlite'', ''live''), (''zap.sqlite~'', ''old'')]))) =
         [ExistsSync ''zap.sqlite'' True, ExistsSync ''zap.sqlite~'' True] @ mid @
         [RenameSync ''zap.sqlite'' ''zap.sqlite~'' (Inr ())] \<and>
       UnlinkSync ''zap.sqlite~'' (Inr ()) \<in> set mid"
  proof -
    define s where "s = disk [(''zap.sqlite'', ''live''), (''zap.sqlite~'', ''old'')]"
    have live: "files (sys s) (env_sqliteFile demo None) = Some \<lparr>content = ''live'', locked = False\<rparr>"
      by (simp add: s_def disk_def path)
    have bak: "files (sys s) (env_sqliteFile demo None @ ''~'') = Some \<lparr>content = ''old'', locked = False\<rparr>"
      by (simp add: s_def disk_def path)
    have start: "trace s = []" by (simp add: s_def disk_def)
    have "RenameSync (env_sqliteFile demo None) (env_sqliteFile demo None @ ''~'') (Inr ())
        \<in> set (trace (snd (clearDatabaseFile demo s)))"
      unfolding clearDatabaseFile_present [OF live] Let_def by (simp add: bak env_logWarning_def)
    then have mem: "RenameSync (env_sqliteFile demo None) (env_sqliteFile demo None @ ''~'') (Inr ())
        \<in> set (trace s @ evs)" if "trace (snd (clearDatabaseFile demo s)) = trace s @ evs" for evs
      using that by simp
    from clearDatabaseFile_rename_last [OF surjective_pairing, of demo s]
    obtain evs where tr: "trace (snd (clearDatabaseFile demo s)) = trace s @ evs"
      and ren: "\<And>old new res. RenameSync old new res \<in> set evs \<Longrightarrow>
             (\<exists>mid. evs =
                [ExistsSync (env_sqliteFile demo None) True,
                 ExistsSync (env_sqliteFile demo None @ ''~'')
                   (files (sys s) (env_sqliteFile demo None @ ''~'') \<noteq> None)] @ mid @
                [RenameSync old new res] \<and>
                (files (sys s) (env_sqliteFile demo None @ ''~'') \<noteq> None \<longrightarrow>
                   UnlinkSync (env_sqliteFile demo None @ ''~'') (Inr ()) \<in> set mid))"
      by blast
    from mem [OF tr] start have "RenameSync (env_sqliteFile demo None) (env_sqliteFile demo None @ ''~'') (Inr ())
        \<in> set evs" by simp
    from ren [OF this] obtain mid where "evs =
                [ExistsSync (env_sqliteFile demo None) True,
                 ExistsSync (env_sqliteFile demo None @ ''~'')
                   (files (sys s) (env_sqliteFile demo None @ ''~'') \<noteq> None)] @ mid @
                [RenameSync (env_sqliteFile demo None) (env_sqliteFile demo None @ ''~'') (Inr ())]"
      and "files (sys s) (env_sqliteFile demo None @ ''~'') \<noteq> None \<longrightarrow>
             UnlinkSync (env_sqliteFile demo None @ ''~'') (Inr ()) \<in> set mid"
      by blast
    with tr start bak have "trace (snd (clearDatabaseFile demo s)) =
           [ExistsSync ''zap.sqlite'' True, ExistsSync ''zap.sqlite~'' True] @ mid @
           [RenameSync ''zap.sqlite'' ''zap.sqlite~'' (Inr ())] \<and>
         UnlinkSync ''zap.sqlite~'' (Inr ()) \<in> set mid"
      by (simp add: path)
    then show ?thesis unfolding s_def by blast
  qed
  have refused: "fst (clearDatabaseFile demo (disk_locked [(''zap.sqlite'', ''live'')])) =
      Threw (EPERM ''zap.sqlite'') \<and>
    files (sys (snd (clearDatabaseFile demo (disk_locked [(''zap.sqlite'', ''live'')])))) ''zap.sqlite'' =
      Some \<lparr>content = ''live'', locked = True\<rparr>"
  proof -
    define s where "s = disk_locked [(''zap.sqlite'', ''live'')]"
    have live: "files (sys s) (env_sqliteFile demo None) = Some \<lparr>content = ''live'', locked = True\<rparr>"
      by (simp add: s_def disk_locked_def path)
    have nobak: "files (sys s) (env_sqliteFile demo None @ ''~'') = None"
      by (simp add: s_def disk_locked_def path)
    have threw: "fst (clearDatabaseFile demo s) = Threw (EPERM (env_sqliteFile demo None))"
      unfolding clearDatabaseFile_present [OF live] Let_def by (simp add: nobak)
    with clearDatabaseFile_rename_last [OF surjective_pairing, of demo s] live
    have "files (sys (snd (clearDatabaseFile demo s))) (env_sqliteFile demo None) =
        Some \<lparr>content = ''live'', locked = True\<rparr>"
      by auto
    with threw show ?thesis unfolding s_def path by simp
  qed
  from renamed refused show ?thesis by blast
qed


text \<open>
  With a live file and no backup, the existence check of the backup answers false and the
  live file is renamed all the same.
\<close>

theorem clearDatabaseFile_renames_without_backup:
  "trace (snd (clearDatabaseFile demo (disk [(''zap.sqlite'', ''live'')]))) =
     [ExistsSync ''zap.sqlite'' True, ExistsSync ''zap.sqlite~'' False,
      LogWarning (DatabaseRestartRequested ''zap.sqlite'' ''zap.sqlite~''),
      RenameSync ''zap.sqlite'' ''zap.sqlite~'' (Inr ())]"
proof -
  have path: "env_sqliteFile demo None = ''zap.sqlite''" by (simp add: demo_def)
  have live: "files (sys (disk [(''zap.sqlite'', ''live'')])) (env_sqliteFile demo None) =
      Some \<lparr>content = ''live'', locked = False\<rparr>"
    by (simp add: disk_def path)
  show ?thesis
    unfolding clearDatabaseFile_present [OF live] Let_def
    by (simp add: path disk_def env_logWarning_def)
qed

section \<open>Runs of the promise chains\<close>

lemmas chain_exec = then_p_def catch_p_def call_def calls sinks log_and_rethrow_def Let_def

text \<open>
  A chain is run from its first call on: nested \<open>then_p\<close> are associated to the right, and
  a call in front of a chain under \<open>catch_p\<close> is split into its two answers.
\<close>

lemma then_p_assoc: "then_p (then_p p f) g = then_p p (\<lambda>a. then_p (f a) g)"
  by (auto simp: then_p_def fun_eq_iff split: prod.splits sum.splits)

lemma catch_then_call:
  "catch_p (then_p (\<lambda>s. call (ev s) (f s) (w s)) g) h s0 =
     (case f s0 (sys (w s0)) of
        (Inl e, x) \<Rightarrow> h e \<lparr>sys = x, trace = trace (w s0) @ [ev s0 (Inl e)]\<rparr>
      | (Inr a, x) \<Rightarrow> catch_p (g a) h \<lparr>sys = x, trace = trace (w s0) @ [ev s0 (Inr a)]\<rparr>)"
  by (auto simp: then_p_def catch_p_def call_def split: prod.splits sum.splits)

lemma catch_then_pure:
  "catch_p (then_p (\<lambda>s. (Inr v, w s)) g) h s0 = catch_p (g v) h (w s0)"
  by (simp add: then_p_def catch_p_def)

lemma catch_pure: "catch_p (\<lambda>s. (Inr v, w s)) h s = (Inr v, w s)"
  by (simp add: catch_p_def)

lemma catch_then_discard:
  "catch_p (then_p (\<lambda>s. discard (call (ev s) (f s)) (w s)) g) h s0 =
     (case f s0 (sys (w s0)) of
        (Inl e, x) \<Rightarrow> h e \<lparr>sys = x, trace = trace (w s0) @ [ev s0 (Inl e)]\<rparr>
      | (Inr returned, x) \<Rightarrow>
          catch_p (g ()) h
            \<lparr>sys = x,
             trace = trace (w s0) @ ev s0 (Inr returned) #
               (case returned of None \<Rightarrow> [] | Some e \<Rightarrow> [UnhandledRejection e])\<rparr>)"
  by (auto simp: then_p_def catch_p_def call_def discard_def emit_def
      split: prod.splits sum.splits option.splits)

lemmas run_chain = catch_then_call catch_then_discard catch_then_pure catch_pure calls sinks
  log_and_rethrow_def

lemma unlink_if_exists_run:
  "unlink_if_exists flag p s =
     (if flag
      then (case files (sys s) p of
              None \<Rightarrow> (Inr (), emit (ExistsSync p False) s)
            | Some f \<Rightarrow>
                if locked f
                then (Inl (EPERM p),
                      \<lparr>sys = sys s, trace = trace s @ [ExistsSync p True, UnlinkSync p (Inl (EPERM p))]\<rparr>)
                else (Inr (),
                      \<lparr>sys = (sys s)\<lparr>files := (files (sys s))(p := None)\<rparr>,
                       trace = trace s @ [ExistsSync p True, UnlinkSync p (Inr ())]\<rparr>))
      else (Inr (), s))"
  unfolding unlink_if_exists_def fs_ops
  by (cases "files (sys s) p") (simp_all add: emit_def)

lemma steps_simps [simp]:
  "steps [] = []"
  "steps (ev # evs) = (case step_of ev of None \<Rightarrow> steps evs | Some st \<Rightarrow> st # steps evs)"
  "steps (xs @ ys) = steps xs @ steps ys"
  by (simp_all add: steps_def List.map_filter_def split: option.splits)

lemma remove_absent [simp]: "files x p = None \<Longrightarrow> x\<lparr>files := (files x)(p := None)\<rparr> = x"
  by (simp add: fun_upd_idem)

lemma unlink_if_exists_cases:
  assumes "unlink_if_exists flag p s = (r, s')"
  obtains
    (refused) f where "flag" "files (sys s) p = Some f" "locked f" "r = Inl (EPERM p)"
      "sys s' = sys s" "trace s' = trace s @ [ExistsSync p True, UnlinkSync p (Inl (EPERM p))]"
  | (went_on) "r = Inr ()" "sys s' = removed flag p (sys s)"
      "trace s' = trace s @ removal_events flag p (sys s)"
      "flag \<Longrightarrow> files (sys s) p = None \<or> (\<exists>f. files (sys s) p = Some f \<and> \<not> locked f)"
proof (cases "flag \<and> (\<exists>f. files (sys s) p = Some f \<and> locked f)")
  case True
  then obtain f where "flag" "files (sys s) p = Some f" "locked f" by blast
  with assms show ?thesis
    by (intro refused [of f]) (auto simp: unlink_if_exists_run)
next
  case False
  with assms show ?thesis
    by (intro went_on)
      (auto simp: unlink_if_exists_run removed_def removal_events_def split: option.splits if_splits)
qed


lemma startGeneration_run:
  assumes "startGeneration c output tpl zcl zapFile oa s = (r, s')"
  obtains
    (threw) f where "truthy (options_cleanDb (default_arg startGeneration_default oa))"
      "files (sys s) (env_sqliteFile c (Some ''generate'')) = Some f" "locked f"
      "r = Threw (EPERM (env_sqliteFile c (Some ''generate'')))" "sys s' = sys s"
      "trace s' = trace s @
         generation_banner (default_arg startGeneration_default oa) output tpl zcl zapFile @
         [ExistsSync (env_sqliteFile c (Some ''generate'')) True,
          UnlinkSync (env_sqliteFile c (Some ''generate''))
            (Inl (EPERM (env_sqliteFile c (Some ''generate''))))]"
  | (chained) rc s0 where "r = ReturnsPromise rc"
      "startGeneration_chain c output tpl zcl (default_arg startGeneration_default oa)
         (env_sqliteFile c (Some ''generate'')) s0 = (rc, s')"
      "sys s0 = removed (truthy (options_cleanDb (default_arg startGeneration_default oa)))
         (env_sqliteFile c (Some ''generate'')) (sys s)"
      "trace s0 = trace s @
         generation_banner (default_arg startGeneration_default oa) output tpl zcl zapFile @
         removal_events (truthy (options_cleanDb (default_arg startGeneration_default oa)))
           (env_sqliteFile c (Some ''generate'')) (sys s)"
      "truthy (options_cleanDb (default_arg startGeneration_default oa)) \<Longrightarrow>
         files (sys s) (env_sqliteFile c (Some ''generate'')) = None \<or>
         (\<exists>f. files (sys s) (env_sqliteFile c (Some ''generate'')) = Some f \<and> \<not> locked f)"
proof -
  define opts where "opts = default_arg startGeneration_default oa"
  define dbFile where "dbFile = env_sqliteFile c (Some ''generate'')"
  define s2 where "s2 =
     (case zapFile of
        Some z \<Rightarrow> if_stmt (truthy (options_log opts)) (console_log (UsingInputFile z))
          (if_stmt (truthy (options_log opts)) (console_log (GenerationInformation output tpl zcl)) s)
      | None \<Rightarrow> if_stmt (truthy (options_log opts)) (console_log UsingEmptyConfiguration)
          (if_stmt (truthy (options_log opts)) (console_log (GenerationInformation output tpl zcl)) s))"
  have s2: "sys s2 = sys s" "trace s2 = trace s @ generation_banner opts output tpl zcl zapFile"
    by (simp_all add: s2_def generation_banner_def sinks split: option.splits)
  have run: "(case unlink_if_exists (truthy (options_cleanDb opts)) dbFile s2 of
           (Inl e, s3) \<Rightarrow> (Threw e, s3)
         | (Inr _, s3) \<Rightarrow>
             (case startGeneration_chain c output tpl zcl opts dbFile s3 of
                (r, s4) \<Rightarrow> (ReturnsPromise r, s4))) = (r, s')"
    using assms unfolding startGeneration_def Let_def opts_def dbFile_def s2_def by simp
  obtain ru s3 where pre: "unlink_if_exists (truthy (options_cleanDb opts)) dbFile s2 = (ru, s3)"
    by (cases "unlink_if_exists (truthy (options_cleanDb opts)) dbFile s2")
  from pre show ?thesis
  proof (cases rule: unlink_if_exists_cases)
    case (refused f)
    with run pre show ?thesis
      by (intro threw [of f]) (auto simp: opts_def dbFile_def s2)
  next
    case went_on
    obtain rc s4 where ch: "startGeneration_chain c output tpl zcl opts dbFile s3 = (rc, s4)"
      by (cases "startGeneration_chain c output tpl zcl opts dbFile s3")
    with run pre went_on show ?thesis
      by (intro chained [of rc s3]) (auto simp: opts_def dbFile_def s2)
  qed
qed


lemma steps_generation_banner [simp]: "steps (generation_banner opts output tpl zcl zapFile) = []"
  by (simp add: generation_banner_def)

lemma steps_removal_events [simp]:
  "steps (removal_events flag p x) = (if flag \<and> files x p \<noteq> None then [EnsureFresh p] else [])"
  by (auto simp: removal_events_def split: option.splits)

lemma each_after_success_append:
  "list_all (\<lambda>ev. failure ev = None) pre \<Longrightarrow> each_after_success (pre @ evs) = each_after_success evs"
  by (induction pre) simp_all

lemma quiet_generation_banner [simp]:
  "list_all (\<lambda>ev. failure ev = None) (generation_banner opts output tpl zcl zapFile)"
  by (simp add: generation_banner_def)

lemma quiet_removal_events [simp]: "list_all (\<lambda>ev. failure ev = None) (removal_events flag p x)"
  by (simp add: removal_events_def err_of_def split: option.splits)



lemmas demo_exec = demo_def disk_def unlink_if_exists_def fs_existsSync_def fs_unlinkSync_def
  fs_renameSync_def unlink_def rename_def default_arg_def
  startGeneration_default_def startSdkGeneration_default_def startSelfCheck_default_def
  truthy_def chain_exec emit_def dropped_def discard_def

lemma demo_generation_returns:
  "fst (startGeneration demo ''out'' ''gen-templates.json'' ''zcl.properties'' None None
          (disk [(''generate.sqlite'', ''stale'')])) = ReturnsPromise (Inr ())"
  by (simp add: startGeneration_def startGeneration_chain_def demo_exec)


lemma startSdkGeneration_run:
  assumes "startSdkGeneration c a generationDir zclPath oa s = (r, s')"
  obtains
    (threw) f where "truthy (options_cleanDb (default_arg startSdkGeneration_default oa))"
      "files (sys s) (env_sqliteFile c (Some ''sdk-regen'')) = Some f" "locked f"
      "r = Threw (EPERM (env_sqliteFile c (Some ''sdk-regen'')))" "sys s' = sys s"
      "trace s' = trace s @ [LogInfo ''Start SDK generation...'',
          ExistsSync (env_sqliteFile c (Some ''sdk-regen'')) True,
          UnlinkSync (env_sqliteFile c (Some ''sdk-regen''))
            (Inl (EPERM (env_sqliteFile c (Some ''sdk-regen''))))]"
  | (chained) rc s0 where "r = ReturnsPromise rc"
      "startSdkGeneration_chain c a generationDir zclPath (default_arg startSdkGeneration_default oa)
         (env_sqliteFile c (Some ''sdk-regen'')) s0 = (rc, s')"
      "sys s0 = removed (truthy (options_cleanDb (default_arg startSdkGeneration_default oa)))
         (env_sqliteFile c (Some ''sdk-regen'')) (sys s)"
      "trace s0 = trace s @ LogInfo ''Start SDK generation...'' #
         removal_events (truthy (options_cleanDb (default_arg startSdkGeneration_default oa)))
           (env_sqliteFile c (Some ''sdk-regen'')) (sys s)"
      "truthy (options_cleanDb (default_arg startSdkGeneration_default oa)) \<Longrightarrow>
         files (sys s) (env_sqliteFile c (Some ''sdk-regen'')) = None \<or>
         (\<exists>f. files (sys s) (env_sqliteFile c (Some ''sdk-regen'')) = Some f \<and> \<not> locked f)"
proof -
  define opts where "opts = default_arg startSdkGeneration_default oa"
  define dbFile where "dbFile = env_sqliteFile c (Some ''sdk-regen'')"
  define s1 where "s1 = env_logInfo ''Start SDK generation...'' s"
  have s1: "sys s1 = sys s" "trace s1 = trace s @ [LogInfo ''Start SDK generation...'']"
    by (simp_all add: s1_def sinks)
  have run: "(case unlink_if_exists (truthy (options_cleanDb opts)) dbFile s1 of
           (Inl e, s2) \<Rightarrow> (Threw e, s2)
         | (Inr _, s2) \<Rightarrow>
             (case startSdkGeneration_chain c a generationDir zclPath opts dbFile s2 of
                (r, s3) \<Rightarrow> (ReturnsPromise r, s3))) = (r, s')"
    using assms unfolding startSdkGeneration_def Let_def opts_def dbFile_def s1_def by simp
  obtain ru s2 where pre: "unlink_if_exists (truthy (options_cleanDb opts)) dbFile s1 = (ru, s2)"
    by (cases "unlink_if_exists (truthy (options_cleanDb opts)) dbFile s1")
  from pre show ?thesis
  proof (cases rule: unlink_if_exists_cases)
    case (refused f)
    with run pre show ?thesis
      by (intro threw [of f]) (auto simp: opts_def dbFile_def s1)
  next
    case went_on
    obtain rc s3 where ch: "startSdkGeneration_chain c a generationDir zclPath opts dbFile s2 = (rc, s3)"
      by (cases "startSdkGeneration_chain c a generationDir zclPath opts dbFile s2")
    with run pre went_on show ?thesis
      by (intro chained [of rc s2]) (auto simp: opts_def dbFile_def s1)
  qed
qed





lemma removal_events_no_open [simp]: "InitDatabase p r \<notin> set (removal_events flag q x)"
  by (simp add: removal_events_def split: option.splits)

lemma generation_banner_no_open [simp]:
  "InitDatabase p r \<notin> set (generation_banner opts output tpl zcl zapFile)"
  by (simp add: generation_banner_def)




lemma startSelfCheck_run:
  assumes "startSelfCheck c a oa s = (r, s')"
  obtains
    (threw) f where
      "files (sys s) (env_sqliteFile c (Some ''self-check'')) = Some f" "locked f"
      "r = Threw (EPERM (env_sqliteFile c (Some ''self-check'')))" "sys s' = sys s"
      "trace s' = trace s @ selfcheck_banner (default_arg startSelfCheck_default oa) @
         [ExistsSync (env_sqliteFile c (Some ''self-check'')) True,
          UnlinkSync (env_sqliteFile c (Some ''self-check''))
            (Inl (EPERM (env_sqliteFile c (Some ''self-check''))))]"
  | (chained) rc s0 s1 where "r = ReturnsUndefined"
      "startSelfCheck_chain c a (default_arg startSelfCheck_default oa)
         (env_sqliteFile c (Some ''self-check'')) s0 = (rc, s1)"
      "s' = dropped (rc, s1)"
      "sys s0 = removed True (env_sqliteFile c (Some ''self-check'')) (sys s)"
      "trace s0 = trace s @ selfcheck_banner (default_arg startSelfCheck_default oa) @
         removal_events True (env_sqliteFile c (Some ''self-check'')) (sys s)"
      "files (sys s) (env_sqliteFile c (Some ''self-check'')) = None \<or>
         (\<exists>f. files (sys s) (env_sqliteFile c (Some ''self-check'')) = Some f \<and> \<not> locked f)"
proof -
  define opts where "opts = default_arg startSelfCheck_default oa"
  define dbFile where "dbFile = env_sqliteFile c (Some ''self-check'')"
  define s2 where "s2 = if_stmt (truthy (options_log opts)) (console_log StartingSelfCheck)
      (env_logInitStdout s)"
  have s2: "sys s2 = sys s" "trace s2 = trace s @ selfcheck_banner opts"
    by (simp_all add: s2_def sinks selfcheck_banner_def)
  have run: "(case unlink_if_exists True dbFile s2 of
           (Inl e, s3) \<Rightarrow> (Threw e, s3)
         | (Inr _, s3) \<Rightarrow> (ReturnsUndefined, dropped (startSelfCheck_chain c a opts dbFile s3))) = (r, s')"
    using assms unfolding startSelfCheck_def Let_def opts_def dbFile_def s2_def by simp
  obtain ru s3 where pre: "unlink_if_exists True dbFile s2 = (ru, s3)"
    by (cases "unlink_if_exists True dbFile s2")
  from pre show ?thesis
  proof (cases rule: unlink_if_exists_cases)
    case (refused f)
    with run pre show ?thesis
      by (intro threw [of f]) (auto simp: opts_def dbFile_def s2)
  next
    case went_on
    obtain rc s4 where ch: "startSelfCheck_chain c a opts dbFile s3 = (rc, s4)"
      by (cases "startSelfCheck_chain c a opts dbFile s3")
    with run pre went_on show ?thesis
      by (intro chained [where rc = rc and ?s0.0 = s3 and ?s1.0 = s4]) (auto simp: opts_def dbFile_def s2)
  qed
qed

lemma count_append_quiet [simp]:
  "count_list (generation_banner opts output tpl zcl zapFile) AppQuit = 0"
  "count_list (removal_events flag p x) AppQuit = 0"
  "count_list (selfcheck_banner opts) AppQuit = 0"
  by (simp_all add: generation_banner_def removal_events_def selfcheck_banner_def split: option.splits)

lemma gen_chain_quit:
  assumes "startGeneration_chain c output tpl zcl opts dbFile s = (Inr u, s')"
  shows "\<exists>evs. trace s' = trace s @ evs \<and>
     count_list evs AppQuit = (if truthy (options_quit opts) then 1 else 0)"
  using assms unfolding startGeneration_chain_def Let_def then_p_assoc
  by (auto simp: run_chain split: prod.splits sum.splits if_splits)

lemma sdk_chain_quit:
  assumes "startSdkGeneration_chain c a dir zp opts dbFile s = (Inr u, s')"
  shows "\<exists>evs. trace s' = trace s @ evs \<and>
     count_list evs AppQuit = (if truthy (options_quit opts) then 1 else 0)"
  using assms unfolding startSdkGeneration_chain_def then_p_assoc
  by (auto simp: run_chain split: prod.splits sum.splits if_splits)

lemma selfcheck_chain_quit:
  assumes "startSelfCheck_chain c a opts dbFile s = (rc, s')"
  shows "\<exists>evs. trace s' = trace s @ evs \<and>
     (case rc of
        Inr u \<Rightarrow> count_list evs AppQuit = 1 \<and> list_all (\<lambda>ev. failure ev = None) evs
      | Inl e \<Rightarrow> \<not> list_all (\<lambda>ev. failure ev = None) evs)"
  using assms unfolding startSelfCheck_chain_def then_p_assoc
  by (auto simp: run_chain err_of_def split: prod.splits sum.splits if_splits)

text \<open>
  C5, as amended. A headless generation and a deprecated SDK regeneration whose promise is
  fulfilled have called \<^verbatim>\<open>app.quit()\<close> once when the \<^verbatim>\<open>quit\<close> flag of their options is
  truthy and not at all otherwise, and the flag is true in the options that stand in for an
  omitted argument. A self-check in which no call failed has called \<^verbatim>\<open>app.quit()\<close> once,
  whatever its options say: it reads no \<^verbatim>\<open>quit\<close> flag.
\<close>

theorem quit_on_success:
  "(startGeneration c output genTemplateJsonFile zclProperties zapFile options_arg s =
        (ReturnsPromise (Inr ()), s') \<longrightarrow>
      (\<exists>evs. trace s' = trace s @ evs \<and>
         count_list evs AppQuit =
           (if truthy (options_quit (default_arg startGeneration_default options_arg)) then 1 else 0))) \<and>
   (startSdkGeneration c a generationDir zclPropertiesFilePath sdk_options_arg t =
        (ReturnsPromise (Inr ()), t') \<longrightarrow>
      (\<exists>evs. trace t' = trace t @ evs \<and>
         count_list evs AppQuit =
           (if truthy (options_quit (default_arg startSdkGeneration_default sdk_options_arg)) then 1 else 0))) \<and>
   (startSelfCheck c a check_options_arg u = (ReturnsUndefined, u') \<longrightarrow>
      (\<exists>evs. trace u' = trace u @ evs \<and>
         (list_all (\<lambda>ev. failure ev = None) evs \<longrightarrow> count_list evs AppQuit = 1))) \<and>
   truthy (options_quit (default_arg startGeneration_default None)) \<and>
   truthy (options_quit (default_arg startSdkGeneration_default None))"
proof -
  have gen: "\<exists>evs. trace s' = trace s @ evs \<and>
         count_list evs AppQuit =
           (if truthy (options_quit (default_arg startGeneration_default options_arg)) then 1 else 0)"
    if run: "startGeneration c output genTemplateJsonFile zclProperties zapFile options_arg s =
        (ReturnsPromise (Inr ()), s')"
    using run
  proof (cases rule: startGeneration_run)
    case (threw f)
    then show ?thesis by simp
  next
    case (chained rc s0)
    then have "startGeneration_chain c output genTemplateJsonFile zclProperties
        (default_arg startGeneration_default options_arg) (env_sqliteFile c (Some ''generate'')) s0 =
        (Inr (), s')" by simp
    from gen_chain_quit [OF this] chained(4) show ?thesis by auto
  qed
  have sdk: "\<exists>evs. trace t' = trace t @ evs \<and>
         count_list evs AppQuit =
           (if truthy (options_quit (default_arg startSdkGeneration_default sdk_options_arg)) then 1 else 0)"
    if run: "startSdkGeneration c a generationDir zclPropertiesFilePath sdk_options_arg t =
        (ReturnsPromise (Inr ()), t')"
    using run
  proof (cases rule: startSdkGeneration_run)
    case (threw f)
    then show ?thesis by simp
  next
    case (chained rc s0)
    then have "startSdkGeneration_chain c a generationDir zclPropertiesFilePath
        (default_arg startSdkGeneration_default sdk_options_arg)
        (env_sqliteFile c (Some ''sdk-regen'')) s0 = (Inr (), t')" by simp
    from sdk_chain_quit [OF this] chained(4) show ?thesis by auto
  qed
  have check: "\<exists>evs. trace u' = trace u @ evs \<and>
         (list_all (\<lambda>ev. failure ev = None) evs \<longrightarrow> count_list evs AppQuit = 1)"
    if run: "startSelfCheck c a check_options_arg u = (ReturnsUndefined, u')"
    using run
  proof (cases rule: startSelfCheck_run)
    case (threw f)
    then show ?thesis by simp
  next
    case (chained rc s0 s1)
    from selfcheck_chain_quit [OF chained(2)] obtain evs where
      evs: "trace s1 = trace s0 @ evs"
        "case rc of Inr u \<Rightarrow> count_list evs AppQuit = 1 \<and> list_all (\<lambda>ev. failure ev = None) evs
          | Inl e \<Rightarrow> \<not> list_all (\<lambda>ev. failure ev = None) evs"
      by blast
    show ?thesis
    proof (cases rc)
      case (Inl e)
      with evs chained(3,5) show ?thesis
        by (auto simp: dropped_def)
    next
      case (Inr v)
      with evs chained(3,5) show ?thesis
        by (auto simp: dropped_def)
    qed
  qed
  from gen sdk check show ?thesis
    by (simp add: default_arg_def startGeneration_default_def startSdkGeneration_default_def truthy_def)
qed

theorem quit_on_success_witness:
  "count_list (trace (snd (startGeneration demo ''out'' ''gen-templates.json'' ''zcl.properties'' None None
      (disk [(''generate.sqlite'', ''stale'')])))) AppQuit = 1 \<and>
   count_list (trace (snd (startSdkGeneration demo demo_args ''sdk-out'' None
      (Some \<lparr>options_quit = Some False, options_cleanDb = Some True, options_log = None\<rparr>)
      (disk [])))) AppQuit = 0 \<and>
   count_list (trace (snd (startSelfCheck demo demo_args None (disk [])))) AppQuit = 1"
proof -
  have gen: "count_list (trace (snd (startGeneration demo ''out'' ''gen-templates.json''
      ''zcl.properties'' None None (disk [(''generate.sqlite'', ''stale'')])))) AppQuit = 1"
  proof -
    define s where "s = disk [(''generate.sqlite'', ''stale'')]"
    define run where
      "run = startGeneration demo ''out'' ''gen-templates.json'' ''zcl.properties'' None None s"
    have ret: "run = (ReturnsPromise (Inr ()), snd run)"
      using demo_generation_returns unfolding run_def s_def by (metis surjective_pairing)
    have start: "trace s = []" by (simp add: s_def disk_def)
    from quit_on_success [where c = demo and ?output = "''out''"
        and genTemplateJsonFile = "''gen-templates.json''" and zclProperties = "''zcl.properties''"
        and zapFile = None and options_arg = None and s = s and s' = "snd run", THEN conjunct1] ret
    obtain evs where "trace (snd run) = trace s @ evs"
      "count_list evs AppQuit =
         (if truthy (options_quit (default_arg startGeneration_default None)) then 1 else 0)"
      unfolding run_def by blast
    with start have "count_list (trace (snd run)) AppQuit = 1"
      by (simp add: default_arg_def startGeneration_default_def truthy_def)
    then show ?thesis unfolding run_def s_def .
  qed
  have sdk: "count_list (trace (snd (startSdkGeneration demo demo_args ''sdk-out'' None
      (Some \<lparr>options_quit = Some False, options_cleanDb = Some True, options_log = None\<rparr>)
      (disk [])))) AppQuit = 0"
  proof -
    define s :: "unit state" where "s = disk []"
    define given where
      "given = \<lparr>options_quit = Some False, options_cleanDb = Some True, options_log = None\<rparr>"
    define run where "run = startSdkGeneration demo demo_args ''sdk-out'' None (Some given) s"
    have "fst run = ReturnsPromise (Inr ())"
      unfolding run_def s_def given_def
      by (simp add: startSdkGeneration_def startSdkGeneration_chain_def demo_exec demo_args_def)
    then have ret: "run = (ReturnsPromise (Inr ()), snd run)"
      by (metis surjective_pairing)
    have start: "trace s = []" by (simp add: s_def disk_def)
    from quit_on_success [where c = demo and a = demo_args and generationDir = "''sdk-out''"
        and zclPropertiesFilePath = None and sdk_options_arg = "Some given" and t = s
        and t' = "snd run", THEN conjunct2, THEN conjunct1] ret
    obtain evs where "trace (snd run) = trace s @ evs"
      "count_list evs AppQuit =
         (if truthy (options_quit (default_arg startSdkGeneration_default (Some given))) then 1 else 0)"
      unfolding run_def by blast
    with start have "count_list (trace (snd run)) AppQuit = 0"
      by (simp add: default_arg_def given_def truthy_def)
    then show ?thesis unfolding run_def s_def given_def .
  qed
  have check: "count_list (trace (snd (startSelfCheck demo demo_args None (disk [])))) AppQuit = 1"
  proof -
    define s :: "unit state" where "s = disk []"
    define run where "run = startSelfCheck demo demo_args None s"
    have tr: "trace (snd run) =
       [LogInitStdout, ConsoleLog StartingSelfCheck,
        ExistsSync ''self-check.sqlite'' False,
        InitDatabase ''self-check.sqlite'' (Inr 7), ConsoleLog DatabaseInitialized,
        ResolveMainDatabase 7 (Inr 7),
        LoadSchema 7 ''zap-schema.sql'' ''1.0'' (Inr 7), ConsoleLog SchemaInitialized,
        LoadZcl 7 ''zcl-builtin.properties'' (Inr \<lparr>ctx_db = 7, ctx_packageId = 1\<rparr>),
        ConsoleLog ZclDataLoaded,
        LoadTemplates 7 ''templates-builtin.json'' (Inr \<lparr>ctx_db = 7, ctx_packageId = 2\<rparr>),
        ConsoleLog GenerationTemplatesLoaded, ConsoleLog SelfCheckDone, AppQuit]"
      and "fst run = ReturnsUndefined"
      unfolding run_def s_def
      by (simp_all add: startSelfCheck_def startSelfCheck_chain_def demo_exec demo_args_def)
    then have ret: "run = (ReturnsUndefined, snd run)"
      by (metis surjective_pairing)
    have quiet: "list_all (\<lambda>ev. failure ev = None) (trace (snd run))"
      unfolding tr by (simp add: err_of_def)
    have start: "trace s = []" by (simp add: s_def disk_def)
    from quit_on_success [where c = demo and a = demo_args and check_options_arg = None and u = s
        and u' = "snd run", THEN conjunct2, THEN conjunct2, THEN conjunct1] ret
    obtain evs where "trace (snd run) = trace s @ evs"
      "list_all (\<lambda>ev. failure ev = None) evs \<longrightarrow> count_list evs AppQuit = 1"
      unfolding run_def by blast
    with start quiet have "count_list (trace (snd run)) AppQuit = 1" by simp
    then show ?thesis unfolding run_def s_def .
  qed
  from gen sdk check show ?thesis by blast
qed


text \<open>
  A self-check that is told \<^verbatim>\<open>{ quit: false, log: false }\<close> quits all the same.
\<close>

theorem selfcheck_quits_against_flag:
  "trace (snd (startSelfCheck demo demo_args
      (Some \<lparr>options_quit = Some False, options_cleanDb = None, options_log = Some False\<rparr>)
      (disk []))) =
     [LogInitStdout,
      ExistsSync ''self-check.sqlite'' False,
      InitDatabase ''self-check.sqlite'' (Inr 7),
      ResolveMainDatabase 7 (Inr 7),
      LoadSchema 7 ''zap-schema.sql'' ''1.0'' (Inr 7),
      LoadZcl 7 ''zcl-builtin.properties'' (Inr \<lparr>ctx_db = 7, ctx_packageId = 1\<rparr>),
      LoadTemplates 7 ''templates-builtin.json'' (Inr \<lparr>ctx_db = 7, ctx_packageId = 2\<rparr>),
      AppQuit]"
  by (simp add: startSelfCheck_def startSelfCheck_chain_def demo_exec demo_args_def)

lemma packages_simps [simp]:
  "packages_loaded [] = []"
  "packages_loaded (ev # evs) =
     (case template_package ev of None \<Rightarrow> packages_loaded evs | Some p \<Rightarrow> p # packages_loaded evs)"
  "packages_loaded (xs @ ys) = packages_loaded xs @ packages_loaded ys"
  "packages_generated [] = []"
  "packages_generated (ev # evs) =
     (case generated_package ev of None \<Rightarrow> packages_generated evs | Some p \<Rightarrow> p # packages_generated evs)"
  "packages_generated (xs @ ys) = packages_generated xs @ packages_generated ys"
  by (simp_all add: packages_loaded_def packages_generated_def List.map_filter_def split: option.splits)

lemma packages_of_preamble [simp]:
  "packages_loaded (generation_banner opts output tpl zcl zapFile) = []"
  "packages_generated (generation_banner opts output tpl zcl zapFile) = []"
  "packages_loaded (removal_events flag p x) = []"
  "packages_generated (removal_events flag p x) = []"
  by (simp_all add: generation_banner_def removal_events_def template_package_def
      generated_package_def split: option.splits)

lemma gen_chain_package:
  assumes "startGeneration_chain c output tpl zcl opts dbFile s = (r, s')"
  shows "\<exists>evs. trace s' = trace s @ evs \<and>
     (packages_generated evs = [] \<or> packages_generated evs = packages_loaded evs) \<and>
     length (packages_loaded evs) \<le> 1 \<and>
     (r = Inr () \<longrightarrow> length (packages_generated evs) = 1)"
  using assms unfolding startGeneration_chain_def Let_def then_p_assoc
  by (auto simp: run_chain template_package_def generated_package_def
      split: prod.splits sum.splits if_splits)

text \<open>
  C9. In every invocation of \<^verbatim>\<open>startGeneration\<close>, \<^verbatim>\<open>loadTemplates\<close> resolves at most once,
  and whenever \<^verbatim>\<open>generateAndWriteFiles\<close> is called, the package identifier it is given is
  the \<^verbatim>\<open>packageId\<close> of the object that this call of \<^verbatim>\<open>loadTemplates\<close> resolved with. A
  run whose promise is fulfilled has made the call exactly once.
\<close>

theorem template_package_is_threaded:
  assumes run: "startGeneration c output genTemplateJsonFile zclProperties zapFile options_arg s = (r, s')"
  shows "\<exists>evs. trace s' = trace s @ evs \<and>
     (packages_generated evs = [] \<or> packages_generated evs = packages_loaded evs) \<and>
     length (packages_loaded evs) \<le> 1 \<and>
     (r = ReturnsPromise (Inr ()) \<longrightarrow> length (packages_generated evs) = 1)"
  using run
proof (cases rule: startGeneration_run)
  case (threw f)
  then show ?thesis
    by (simp add: template_package_def generated_package_def)
next
  case (chained rc s0)
  from gen_chain_package [OF chained(2)] chained(1,4) show ?thesis
    by auto
qed

theorem template_package_is_threaded_witness:
  "(let evs = trace (snd (startGeneration demo ''out'' ''gen-templates.json'' ''zcl.properties'' None None
      (disk [(''generate.sqlite'', ''stale'')])))
    in packages_loaded evs = [2] \<and> packages_generated evs = [2])"
proof -
  define s where "s = disk [(''generate.sqlite'', ''stale'')]"
  define run where "run = startGeneration demo ''out'' ''gen-templates.json'' ''zcl.properties'' None None s"
  have ret: "fst run = ReturnsPromise (Inr ())"
    using demo_generation_returns unfolding run_def s_def .
  have start: "trace s = []" by (simp add: s_def disk_def)
  have loaded: "packages_loaded (trace (snd run)) = [2]"
    unfolding run_def s_def
    by (simp add: startGeneration_def startGeneration_chain_def demo_exec template_package_def)
  from template_package_is_threaded [OF surjective_pairing, of demo "''out''" "''gen-templates.json''"
      "''zcl.properties''" None None s] ret start
  have "packages_generated (trace (snd run)) = packages_loaded (trace (snd run))"
    unfolding run_def by auto
  with loaded show ?thesis unfolding run_def s_def Let_def by simp
qed

lemma gen_chain_quiet:
  assumes "startGeneration_chain c output tpl zcl opts dbFile s = (r, s')"
    and "\<not> truthy (options_quit opts)"
  shows "\<exists>evs. trace s' = trace s @ evs \<and> AppQuit \<notin> set evs \<and>
     (\<forall>p b. ExistsSync p b \<notin> set evs) \<and> (\<forall>p u. UnlinkSync p u \<notin> set evs)"
  using assms unfolding startGeneration_chain_def Let_def then_p_assoc
  by (auto simp: run_chain split: prod.splits sum.splits if_splits)

lemma sdk_chain_quiet:
  assumes "startSdkGeneration_chain c a dir zp opts dbFile s = (r, s')"
    and "\<not> truthy (options_quit opts)"
  shows "\<exists>evs. trace s' = trace s @ evs \<and> AppQuit \<notin> set evs \<and>
     (\<forall>p b. ExistsSync p b \<notin> set evs) \<and> (\<forall>p u. UnlinkSync p u \<notin> set evs)"
  using assms unfolding startSdkGeneration_chain_def then_p_assoc
  by (auto simp: run_chain split: prod.splits sum.splits if_splits)

lemma gen_chain_flags:
  assumes "startGeneration_chain c output tpl zcl opts dbFile s = (rc, s')"
  shows "\<exists>evs. trace s' = trace s @ evs \<and>
     (AppQuit \<in> set evs \<longleftrightarrow> truthy (options_quit opts) \<and> rc = Inr ()) \<and>
     (\<forall>p b. ExistsSync p b \<notin> set evs) \<and> (\<forall>p u. UnlinkSync p u \<notin> set evs) \<and>
     (\<forall>l. ConsoleLog l \<notin> set evs) \<and>
     (\<forall>db sid pk out lg u. GenerateAndWriteFiles db sid pk out lg u \<in> set evs \<longrightarrow> lg = options_log opts)"
  using assms unfolding startGeneration_chain_def Let_def then_p_assoc
  by (auto simp: run_chain split: prod.splits sum.splits if_splits)

lemma sdk_chain_flags:
  assumes "startSdkGeneration_chain c a dir zp opts dbFile s = (rc, s')"
  shows "\<exists>evs. trace s' = trace s @ evs \<and>
     (AppQuit \<in> set evs \<longleftrightarrow> truthy (options_quit opts) \<and> rc = Inr ()) \<and>
     (\<forall>p b. ExistsSync p b \<notin> set evs) \<and> (\<forall>p u. UnlinkSync p u \<notin> set evs) \<and>
     (\<forall>l. ConsoleLog l \<notin> set evs)"
  using assms unfolding startSdkGeneration_chain_def then_p_assoc
  by (auto simp: run_chain split: prod.splits sum.splits if_splits)

lemma startGeneration_flags:
  assumes run: "startGeneration c output tpl zcl zapFile oa s = (r, s')"
  shows "\<exists>evs. trace s' = trace s @ evs \<and>
     ((\<exists>b. ExistsSync (env_sqliteFile c (Some ''generate'')) b \<in> set evs) \<longleftrightarrow>
        truthy (options_cleanDb (default_arg startGeneration_default oa))) \<and>
     ((\<exists>u. UnlinkSync (env_sqliteFile c (Some ''generate'')) u \<in> set evs) \<longleftrightarrow>
        truthy (options_cleanDb (default_arg startGeneration_default oa)) \<and>
        files (sys s) (env_sqliteFile c (Some ''generate'')) \<noteq> None) \<and>
     (AppQuit \<in> set evs \<longleftrightarrow>
        truthy (options_quit (default_arg startGeneration_default oa)) \<and> r = ReturnsPromise (Inr ())) \<and>
     ((\<exists>l. ConsoleLog l \<in> set evs) \<longleftrightarrow>
        truthy (options_log (default_arg startGeneration_default oa))) \<and>
     (\<forall>db sid pk out lg u. GenerateAndWriteFiles db sid pk out lg u \<in> set evs \<longrightarrow>
        lg = options_log (default_arg startGeneration_default oa))"
  using run
proof (cases rule: startGeneration_run)
  case (threw f)
  then show ?thesis
    by (auto simp: generation_banner_def)
next
  case (chained rc s0)
  from gen_chain_flags [OF chained(2)] obtain evs where evs:
    "trace s' = trace s0 @ evs"
    "AppQuit \<in> set evs \<longleftrightarrow> truthy (options_quit (default_arg startGeneration_default oa)) \<and> rc = Inr ()"
    "\<forall>p b. ExistsSync p b \<notin> set evs" "\<forall>p u. UnlinkSync p u \<notin> set evs"
    "\<forall>l. ConsoleLog l \<notin> set evs"
    "\<forall>db sid pk out lg u. GenerateAndWriteFiles db sid pk out lg u \<in> set evs \<longrightarrow>
        lg = options_log (default_arg startGeneration_default oa)"
    by blast
  with chained(1,4) show ?thesis
    by (auto simp: generation_banner_def removal_events_def split: option.splits)
qed

lemma startSdkGeneration_flags:
  assumes run: "startSdkGeneration c a dir zp oa s = (r, s')"
  shows "\<exists>evs. trace s' = trace s @ evs \<and>
     ((\<exists>b. ExistsSync (env_sqliteFile c (Some ''sdk-regen'')) b \<in> set evs) \<longleftrightarrow>
        truthy (options_cleanDb (default_arg startSdkGeneration_default oa))) \<and>
     ((\<exists>u. UnlinkSync (env_sqliteFile c (Some ''sdk-regen'')) u \<in> set evs) \<longleftrightarrow>
        truthy (options_cleanDb (default_arg startSdkGeneration_default oa)) \<and>
        files (sys s) (env_sqliteFile c (Some ''sdk-regen'')) \<noteq> None) \<and>
     (AppQuit \<in> set evs \<longleftrightarrow>
        truthy (options_quit (default_arg startSdkGeneration_default oa)) \<and> r = ReturnsPromise (Inr ())) \<and>
     (\<forall>l. ConsoleLog l \<notin> set evs)"
  using run
proof (cases rule: startSdkGeneration_run)
  case (threw f)
  then show ?thesis
    by auto
next
  case (chained rc s0)
  from sdk_chain_flags [OF chained(2)] obtain evs where evs:
    "trace s' = trace s0 @ evs"
    "AppQuit \<in> set evs \<longleftrightarrow> truthy (options_quit (default_arg startSdkGeneration_default oa)) \<and> rc = Inr ()"
    "\<forall>p b. ExistsSync p b \<notin> set evs" "\<forall>p u. UnlinkSync p u \<notin> set evs"
    "\<forall>l. ConsoleLog l \<notin> set evs"
    by blast
  with chained(1,4) show ?thesis
    by (auto simp: removal_events_def split: option.splits)
qed

lemma startGeneration_reads_flags:
  assumes "truthy (options_quit g1) = truthy (options_quit g2)"
    and "truthy (options_cleanDb g1) = truthy (options_cleanDb g2)"
    and "options_log g1 = options_log g2"
  shows "startGeneration c output tpl zcl zapFile (Some g1) s =
         startGeneration c output tpl zcl zapFile (Some g2) s"
proof -
  have chain: "startGeneration_chain c output tpl zcl g1 dbFile =
      startGeneration_chain c output tpl zcl g2 dbFile" for dbFile
    using assms by (simp add: startGeneration_chain_def)
  show ?thesis
    unfolding startGeneration_def Let_def default_arg_def option.case assms chain ..
qed

lemma startSdkGeneration_reads_flags:
  assumes "truthy (options_quit g1) = truthy (options_quit g2)"
    and "truthy (options_cleanDb g1) = truthy (options_cleanDb g2)"
  shows "startSdkGeneration c a dir zp (Some g1) s = startSdkGeneration c a dir zp (Some g2) s"
proof -
  have chain: "startSdkGeneration_chain c a dir zp g1 dbFile =
      startSdkGeneration_chain c a dir zp g2 dbFile" for dbFile
    using assms by (simp add: startSdkGeneration_chain_def)
  show ?thesis
    unfolding startSdkGeneration_def Let_def default_arg_def option.case assms chain ..
qed

lemma unset_flag_runs:
  "startGeneration c output tpl zcl zapFile (Some (given\<lparr>options_quit := None\<rparr>)) s =
   startGeneration c output tpl zcl zapFile (Some (given\<lparr>options_quit := Some False\<rparr>)) s"
  "startGeneration c output tpl zcl zapFile (Some (given\<lparr>options_cleanDb := None\<rparr>)) s =
   startGeneration c output tpl zcl zapFile (Some (given\<lparr>options_cleanDb := Some False\<rparr>)) s"
  "startSdkGeneration c a dir zp (Some (given\<lparr>options_quit := None\<rparr>)) s =
   startSdkGeneration c a dir zp (Some (given\<lparr>options_quit := Some False\<rparr>)) s"
  "startSdkGeneration c a dir zp (Some (given\<lparr>options_cleanDb := None\<rparr>)) s =
   startSdkGeneration c a dir zp (Some (given\<lparr>options_cleanDb := Some False\<rparr>)) s"
  "startSdkGeneration c a dir zp (Some (given\<lparr>options_log := v\<rparr>)) s =
   startSdkGeneration c a dir zp (Some given) s"
  by (rule startGeneration_reads_flags startSdkGeneration_reads_flags; simp add: truthy_def)+

text \<open>
  C10. The defaults of \<^verbatim>\<open>startGeneration\<close> and \<^verbatim>\<open>startSdkGeneration\<close> are the options of
  a call that omits the argument. In an options object that is passed, a flag that is not set
  is read as \<^verbatim>\<open>undefined\<close> and acts as \<^verbatim>\<open>false\<close>: whatever the other flags are, the run
  with \<^verbatim>\<open>quit\<close> unset is the run with \<^verbatim>\<open>quit\<close> false, the run with \<^verbatim>\<open>cleanDb\<close> unset is the
  run with \<^verbatim>\<open>cleanDb\<close> false, and \<^verbatim>\<open>startSdkGeneration\<close> never reads \<^verbatim>\<open>log\<close>. With
  \<^verbatim>\<open>{ log: false }\<close> the promise is returned, and the run makes no existence check, removes
  no file and never calls \<^verbatim>\<open>app.quit()\<close>. For every options argument, omitted or passed, with
  the options that the function then reads: the existence of the database file is checked
  exactly when \<^verbatim>\<open>cleanDb\<close> is truthy, the file is unlinked exactly when \<^verbatim>\<open>cleanDb\<close> is truthy
  and the file exists, \<^verbatim>\<open>app.quit()\<close> is called exactly when \<^verbatim>\<open>quit\<close> is truthy and the chain
  succeeds, \<^verbatim>\<open>startGeneration\<close> prints exactly when \<^verbatim>\<open>log\<close> is truthy, and
  \<^verbatim>\<open>generateAndWriteFiles\<close> is handed \<^verbatim>\<open>options.log\<close> as it was read, \<^verbatim>\<open>undefined\<close> when it
  is not set.
\<close>

theorem defaults_only_for_omitted_options:
  "startGeneration c output genTemplateJsonFile zclProperties zapFile None s =
     startGeneration c output genTemplateJsonFile zclProperties zapFile
       (Some \<lparr>options_quit = Some True, options_cleanDb = Some True, options_log = Some True\<rparr>) s \<and>
   startSdkGeneration c a generationDir zclPropertiesFilePath None s =
     startSdkGeneration c a generationDir zclPropertiesFilePath
       (Some \<lparr>options_quit = Some True, options_cleanDb = Some True, options_log = None\<rparr>) s \<and>
   startGeneration c output genTemplateJsonFile zclProperties zapFile
       (Some \<lparr>options_quit = None, options_cleanDb = None, options_log = lg\<rparr>) s =
     startGeneration c output genTemplateJsonFile zclProperties zapFile
       (Some \<lparr>options_quit = Some False, options_cleanDb = Some False, options_log = lg\<rparr>) s \<and>
   startSdkGeneration c a generationDir zclPropertiesFilePath
       (Some \<lparr>options_quit = None, options_cleanDb = None, options_log = lg\<rparr>) s =
     startSdkGeneration c a generationDir zclPropertiesFilePath
       (Some \<lparr>options_quit = Some False, options_cleanDb = Some False, options_log = lg\<rparr>) s \<and>
   (\<exists>rc s' evs.
      startGeneration c output genTemplateJsonFile zclProperties zapFile
        (Some \<lparr>options_quit = None, options_cleanDb = None, options_log = Some False\<rparr>) s =
        (ReturnsPromise rc, s') \<and>
      trace s' = trace s @ evs \<and> AppQuit \<notin> set evs \<and>
      (\<forall>p b. ExistsSync p b \<notin> set evs) \<and> (\<forall>p u. UnlinkSync p u \<notin> set evs)) \<and>
   (\<exists>rc s' evs.
      startSdkGeneration c a generationDir zclPropertiesFilePath
        (Some \<lparr>options_quit = None, options_cleanDb = None, options_log = Some False\<rparr>) s =
        (ReturnsPromise rc, s') \<and>
      trace s' = trace s @ evs \<and> AppQuit \<notin> set evs \<and>
      (\<forall>p b. ExistsSync p b \<notin> set evs) \<and> (\<forall>p u. UnlinkSync p u \<notin> set evs)) \<and>
   startGeneration c output genTemplateJsonFile zclProperties zapFile
       (Some (given\<lparr>options_quit := None\<rparr>)) s =
     startGeneration c output genTemplateJsonFile zclProperties zapFile
       (Some (given\<lparr>options_quit := Some False\<rparr>)) s \<and>
   startGeneration c output genTemplateJsonFile zclProperties zapFile
       (Some (given\<lparr>options_cleanDb := None\<rparr>)) s =
     startGeneration c output genTemplateJsonFile zclProperties zapFile
       (Some (given\<lparr>options_cleanDb := Some False\<rparr>)) s \<and>
   startSdkGeneration c a generationDir zclPropertiesFilePath
       (Some (given\<lparr>options_quit := None\<rparr>)) s =
     startSdkGeneration c a generationDir zclPropertiesFilePath
       (Some (given\<lparr>options_quit := Some False\<rparr>)) s \<and>
   startSdkGeneration c a generationDir zclPropertiesFilePath
       (Some (given\<lparr>options_cleanDb := None\<rparr>)) s =
     startSdkGeneration c a generationDir zclPropertiesFilePath
       (Some (given\<lparr>options_cleanDb := Some False\<rparr>)) s \<and>
   startSdkGeneration c a generationDir zclPropertiesFilePath
       (Some (given\<lparr>options_log := lg\<rparr>)) s =
     startSdkGeneration c a generationDir zclPropertiesFilePath (Some given) s \<and>
   (case startGeneration c output genTemplateJsonFile zclProperties zapFile options_arg s of
      (r, s') \<Rightarrow>
        \<exists>evs. trace s' = trace s @ evs \<and>
          ((\<exists>b. ExistsSync (env_sqliteFile c (Some ''generate'')) b \<in> set evs) \<longleftrightarrow>
             truthy (options_cleanDb (default_arg startGeneration_default options_arg))) \<and>
          ((\<exists>u. UnlinkSync (env_sqliteFile c (Some ''generate'')) u \<in> set evs) \<longleftrightarrow>
             truthy (options_cleanDb (default_arg startGeneration_default options_arg)) \<and>
             files (sys s) (env_sqliteFile c (Some ''generate'')) \<noteq> None) \<and>
          (AppQuit \<in> set evs \<longleftrightarrow>
             truthy (options_quit (default_arg startGeneration_default options_arg)) \<and>
             r = ReturnsPromise (Inr ())) \<and>
          ((\<exists>l. ConsoleLog l \<in> set evs) \<longleftrightarrow>
             truthy (options_log (default_arg startGeneration_default options_arg))) \<and>
          (\<forall>db sessionId packageId out logging answer.
             GenerateAndWriteFiles db sessionId packageId out logging answer \<in> set evs \<longrightarrow>
             logging = options_log (default_arg startGeneration_default options_arg))) \<and>
   (case startSdkGeneration c a generationDir zclPropertiesFilePath options_arg s of
      (r, s') \<Rightarrow>
        \<exists>evs. trace s' = trace s @ evs \<and>
          ((\<exists>b. ExistsSync (env_sqliteFile c (Some ''sdk-regen'')) b \<in> set evs) \<longleftrightarrow>
             truthy (options_cleanDb (default_arg startSdkGeneration_default options_arg))) \<and>
          ((\<exists>u. UnlinkSync (env_sqliteFile c (Some ''sdk-regen'')) u \<in> set evs) \<longleftrightarrow>
             truthy (options_cleanDb (default_arg startSdkGeneration_default options_arg)) \<and>
             files (sys s) (env_sqliteFile c (Some ''sdk-regen'')) \<noteq> None) \<and>
          (AppQuit \<in> set evs \<longleftrightarrow>
             truthy (options_quit (default_arg startSdkGeneration_default options_arg)) \<and>
             r = ReturnsPromise (Inr ())) \<and>
          (\<forall>l. ConsoleLog l \<notin> set evs))"
proof -
  let ?given = "\<lparr>options_quit = None, options_cleanDb = None, options_log = Some False\<rparr>"
  have unset: "\<not> truthy (options_quit (default_arg d (Some ?given)))"
    "\<not> truthy (options_cleanDb (default_arg d (Some ?given)))" for d
    by (simp_all add: default_arg_def truthy_def)
  have gen: "\<exists>rc s' evs.
      startGeneration c output genTemplateJsonFile zclProperties zapFile (Some ?given) s =
        (ReturnsPromise rc, s') \<and>
      trace s' = trace s @ evs \<and> AppQuit \<notin> set evs \<and>
      (\<forall>p b. ExistsSync p b \<notin> set evs) \<and> (\<forall>p u. UnlinkSync p u \<notin> set evs)"
  proof -
    obtain r s' where run:
      "startGeneration c output genTemplateJsonFile zclProperties zapFile (Some ?given) s = (r, s')"
      by (cases "startGeneration c output genTemplateJsonFile zclProperties zapFile (Some ?given) s")
    from run show ?thesis
    proof (cases rule: startGeneration_run)
      case (threw f)
      with unset show ?thesis by simp
    next
      case (chained rc s0)
      from gen_chain_quiet [OF chained(2) unset(1)] obtain evs where
        "trace s' = trace s0 @ evs" "AppQuit \<notin> set evs"
        "\<forall>p b. ExistsSync p b \<notin> set evs" "\<forall>p u. UnlinkSync p u \<notin> set evs"
        by blast
      with chained(1,4) unset run show ?thesis
        by (auto simp: removal_events_def generation_banner_def)
    qed
  qed
  have sdk: "\<exists>rc s' evs.
      startSdkGeneration c a generationDir zclPropertiesFilePath (Some ?given) s =
        (ReturnsPromise rc, s') \<and>
      trace s' = trace s @ evs \<and> AppQuit \<notin> set evs \<and>
      (\<forall>p b. ExistsSync p b \<notin> set evs) \<and> (\<forall>p u. UnlinkSync p u \<notin> set evs)"
  proof -
    obtain r s' where run:
      "startSdkGeneration c a generationDir zclPropertiesFilePath (Some ?given) s = (r, s')"
      by (cases "startSdkGeneration c a generationDir zclPropertiesFilePath (Some ?given) s")
    from run show ?thesis
    proof (cases rule: startSdkGeneration_run)
      case (threw f)
      with unset show ?thesis by simp
    next
      case (chained rc s0)
      from sdk_chain_quiet [OF chained(2) unset(1)] obtain evs where
        "trace s' = trace s0 @ evs" "AppQuit \<notin> set evs"
        "\<forall>p b. ExistsSync p b \<notin> set evs" "\<forall>p u. UnlinkSync p u \<notin> set evs"
        by blast
      with chained(1,4) unset run show ?thesis
        by (auto simp: removal_events_def)
    qed
  qed
  have omitted:
    "startGeneration c output genTemplateJsonFile zclProperties zapFile None s =
     startGeneration c output genTemplateJsonFile zclProperties zapFile
       (Some \<lparr>options_quit = Some True, options_cleanDb = Some True, options_log = Some True\<rparr>) s"
    "startSdkGeneration c a generationDir zclPropertiesFilePath None s =
     startSdkGeneration c a generationDir zclPropertiesFilePath
       (Some \<lparr>options_quit = Some True, options_cleanDb = Some True, options_log = None\<rparr>) s"
    by (simp_all add: startGeneration_def startSdkGeneration_def default_arg_def
        startGeneration_default_def startSdkGeneration_default_def)
  have both:
    "startGeneration c output genTemplateJsonFile zclProperties zapFile
       (Some \<lparr>options_quit = None, options_cleanDb = None, options_log = lg\<rparr>) s =
     startGeneration c output genTemplateJsonFile zclProperties zapFile
       (Some \<lparr>options_quit = Some False, options_cleanDb = Some False, options_log = lg\<rparr>) s"
    "startSdkGeneration c a generationDir zclPropertiesFilePath
       (Some \<lparr>options_quit = None, options_cleanDb = None, options_log = lg\<rparr>) s =
     startSdkGeneration c a generationDir zclPropertiesFilePath
       (Some \<lparr>options_quit = Some False, options_cleanDb = Some False, options_log = lg\<rparr>) s"
    by (rule startGeneration_reads_flags startSdkGeneration_reads_flags; simp add: truthy_def)+
  have each:
    "startGeneration c output genTemplateJsonFile zclProperties zapFile
       (Some (given\<lparr>options_quit := None\<rparr>)) s =
     startGeneration c output genTemplateJsonFile zclProperties zapFile
       (Some (given\<lparr>options_quit := Some False\<rparr>)) s"
    "startGeneration c output genTemplateJsonFile zclProperties zapFile
       (Some (given\<lparr>options_cleanDb := None\<rparr>)) s =
     startGeneration c output genTemplateJsonFile zclProperties zapFile
       (Some (given\<lparr>options_cleanDb := Some False\<rparr>)) s"
    "startSdkGeneration c a generationDir zclPropertiesFilePath
       (Some (given\<lparr>options_quit := None\<rparr>)) s =
     startSdkGeneration c a generationDir zclPropertiesFilePath
       (Some (given\<lparr>options_quit := Some False\<rparr>)) s"
    "startSdkGeneration c a generationDir zclPropertiesFilePath
       (Some (given\<lparr>options_cleanDb := None\<rparr>)) s =
     startSdkGeneration c a generationDir zclPropertiesFilePath
       (Some (given\<lparr>options_cleanDb := Some False\<rparr>)) s"
    "startSdkGeneration c a generationDir zclPropertiesFilePath
       (Some (given\<lparr>options_log := lg\<rparr>)) s =
     startSdkGeneration c a generationDir zclPropertiesFilePath (Some given) s"
    by (rule startGeneration_reads_flags startSdkGeneration_reads_flags; simp add: truthy_def)+
  obtain r s' where gen_run:
    "startGeneration c output genTemplateJsonFile zclProperties zapFile options_arg s = (r, s')"
    by (cases "startGeneration c output genTemplateJsonFile zclProperties zapFile options_arg s")
  obtain r2 s2 where sdk_run:
    "startSdkGeneration c a generationDir zclPropertiesFilePath options_arg s = (r2, s2)"
    by (cases "startSdkGeneration c a generationDir zclPropertiesFilePath options_arg s")
  note flags = startGeneration_flags [OF gen_run] startSdkGeneration_flags [OF sdk_run]
  show ?thesis
    unfolding gen_run sdk_run prod.case
    by (intro conjI omitted both gen sdk each flags)
qed

text \<open>
  On an installation whose database file of the generation exists: the call that omits the
  options prints, removes the file and quits; the call with \<^verbatim>\<open>{ log: false }\<close> does none of
  the three; the call with \<^verbatim>\<open>{ quit: true }\<close> quits, prints nothing and removes nothing, as
  with \<^verbatim>\<open>cleanDb\<close> false. For \<^verbatim>\<open>startSdkGeneration\<close>: omitted options remove the file and
  quit, \<^verbatim>\<open>{ cleanDb: true }\<close> removes the file and does not quit.
\<close>

theorem defaults_only_for_omitted_options_witness:
  "trace (snd (startGeneration demo ''out'' ''gen-templates.json'' ''zcl.properties'' None None
      (disk [(''generate.sqlite'', ''stale'')]))) =
     [ConsoleLog (GenerationInformation ''out'' ''gen-templates.json'' ''zcl.properties''),
      ConsoleLog UsingEmptyConfiguration,
      ExistsSync ''generate.sqlite'' True, UnlinkSync ''generate.sqlite'' (Inr ()),
      InitDatabase ''generate.sqlite'' (Inr 7), ResolveMainDatabase 7 (Inr 7),
      LoadSchema 7 ''zap-schema.sql'' ''1.0'' (Inr 7),
      LoadZcl 7 ''zcl.properties'' (Inr \<lparr>ctx_db = 7, ctx_packageId = 1\<rparr>),
      LoadTemplates 7 ''gen-templates.json'' (Inr \<lparr>ctx_db = 7, ctx_packageId = 2\<rparr>),
      CreateBlankSession 7 (Inr 3), InitializeSessionPackage 7 3 (Inr 3),
      GenerateAndWriteFiles 7 3 2 ''out'' (Some True) (Inr ()), AppQuit] \<and>
   trace (snd (startGeneration demo ''out'' ''gen-templates.json'' ''zcl.properties'' None
      (Some \<lparr>options_quit = None, options_cleanDb = None, options_log = Some False\<rparr>)
      (disk [(''generate.sqlite'', ''stale'')]))) =
     [InitDatabase ''generate.sqlite'' (Inr 7), ResolveMainDatabase 7 (Inr 7),
      LoadSchema 7 ''zap-schema.sql'' ''1.0'' (Inr 7),
      LoadZcl 7 ''zcl.properties'' (Inr \<lparr>ctx_db = 7, ctx_packageId = 1\<rparr>),
      LoadTemplates 7 ''gen-templates.json'' (Inr \<lparr>ctx_db = 7, ctx_packageId = 2\<rparr>),
      CreateBlankSession 7 (Inr 3), InitializeSessionPackage 7 3 (Inr 3),
      GenerateAndWriteFiles 7 3 2 ''out'' (Some False) (Inr ())] \<and>
   trace (snd (startGeneration demo ''out'' ''gen-templates.json'' ''zcl.properties'' None
      (Some \<lparr>options_quit = Some True, options_cleanDb = None, options_log = None\<rparr>)
      (disk [(''generate.sqlite'', ''stale'')]))) =
     [InitDatabase ''generate.sqlite'' (Inr 7), ResolveMainDatabase 7 (Inr 7),
      LoadSchema 7 ''zap-schema.sql'' ''1.0'' (Inr 7),
      LoadZcl 7 ''zcl.properties'' (Inr \<lparr>ctx_db = 7, ctx_packageId = 1\<rparr>),
      LoadTemplates 7 ''gen-templates.json'' (Inr \<lparr>ctx_db = 7, ctx_packageId = 2\<rparr>),
      CreateBlankSession 7 (Inr 3), InitializeSessionPackage 7 3 (Inr 3),
      GenerateAndWriteFiles 7 3 2 ''out'' None (Inr ()), AppQuit] \<and>
   startGeneration demo ''out'' ''gen-templates.json'' ''zcl.properties'' None
      (Some \<lparr>options_quit = Some True, options_cleanDb = None, options_log = None\<rparr>)
      (disk [(''generate.sqlite'', ''stale'')]) =
   startGeneration demo ''out'' ''gen-templates.json'' ''zcl.properties'' None
      (Some \<lparr>options_quit = Some True, options_cleanDb = Some False, options_log = None\<rparr>)
      (disk [(''generate.sqlite'', ''stale'')]) \<and>
   trace (snd (startSdkGeneration demo demo_args ''sdk'' None None
      (disk [(''sdk-regen.sqlite'', ''stale'')]))) =
     [LogInfo ''Start SDK generation...'',
      ExistsSync ''sdk-regen.sqlite'' True, UnlinkSync ''sdk-regen.sqlite'' (Inr ()),
      InitDatabase ''sdk-regen.sqlite'' (Inr 7), ResolveMainDatabase 7 (Inr 7),
      LoadSchema 7 ''zap-schema.sql'' ''1.0'' (Inr 7),
      LoadZcl 7 ''zcl-builtin.properties'' (Inr \<lparr>ctx_db = 7, ctx_packageId = 1\<rparr>),
      RunSdkGeneration 7 ''sdk'' (Inr ()), AppQuit] \<and>
   trace (snd (startSdkGeneration demo demo_args ''sdk'' None
      (Some \<lparr>options_quit = None, options_cleanDb = Some True, options_log = None\<rparr>)
      (disk [(''sdk-regen.sqlite'', ''stale'')]))) =
     [LogInfo ''Start SDK generation...'',
      ExistsSync ''sdk-regen.sqlite'' True, UnlinkSync ''sdk-regen.sqlite'' (Inr ()),
      InitDatabase ''sdk-regen.sqlite'' (Inr 7), ResolveMainDatabase 7 (Inr 7),
      LoadSchema 7 ''zap-schema.sql'' ''1.0'' (Inr 7),
      LoadZcl 7 ''zcl-builtin.properties'' (Inr \<lparr>ctx_db = 7, ctx_packageId = 1\<rparr>),
      RunSdkGeneration 7 ''sdk'' (Inr ())]"
proof -
  have same: "startGeneration demo ''out'' ''gen-templates.json'' ''zcl.properties'' None
      (Some \<lparr>options_quit = Some True, options_cleanDb = None, options_log = None\<rparr>)
      (disk [(''generate.sqlite'', ''stale'')]) =
   startGeneration demo ''out'' ''gen-templates.json'' ''zcl.properties'' None
      (Some \<lparr>options_quit = Some True, options_cleanDb = Some False, options_log = None\<rparr>)
      (disk [(''generate.sqlite'', ''stale'')])"
    using defaults_only_for_omitted_options [where c = demo and ?output = "''out''"
        and genTemplateJsonFile = "''gen-templates.json''" and zclProperties = "''zcl.properties''"
        and zapFile = None and s = "disk [(''generate.sqlite'', ''stale'')]"
        and given = "\<lparr>options_quit = Some True, options_cleanDb = None, options_log = None\<rparr>"]
    by simp
  have runs:
    "trace (snd (startGeneration demo ''out'' ''gen-templates.json'' ''zcl.properties'' None None
      (disk [(''generate.sqlite'', ''stale'')]))) =
     [ConsoleLog (GenerationInformation ''out'' ''gen-templates.json'' ''zcl.properties''),
      ConsoleLog UsingEmptyConfiguration,
      ExistsSync ''generate.sqlite'' True, UnlinkSync ''generate.sqlite'' (Inr ()),
      InitDatabase ''generate.sqlite'' (Inr 7), ResolveMainDatabase 7 (Inr 7),
      LoadSchema 7 ''zap-schema.sql'' ''1.0'' (Inr 7),
      LoadZcl 7 ''zcl.properties'' (Inr \<lparr>ctx_db = 7, ctx_packageId = 1\<rparr>),
      LoadTemplates 7 ''gen-templates.json'' (Inr \<lparr>ctx_db = 7, ctx_packageId = 2\<rparr>),
      CreateBlankSession 7 (Inr 3), InitializeSessionPackage 7 3 (Inr 3),
      GenerateAndWriteFiles 7 3 2 ''out'' (Some True) (Inr ()), AppQuit]"
    "trace (snd (startGeneration demo ''out'' ''gen-templates.json'' ''zcl.properties'' None
      (Some \<lparr>options_quit = None, options_cleanDb = None, options_log = Some False\<rparr>)
      (disk [(''generate.sqlite'', ''stale'')]))) =
     [InitDatabase ''generate.sqlite'' (Inr 7), ResolveMainDatabase 7 (Inr 7),
      LoadSchema 7 ''zap-schema.sql'' ''1.0'' (Inr 7),
      LoadZcl 7 ''zcl.properties'' (Inr \<lparr>ctx_db = 7, ctx_packageId = 1\<rparr>),
      LoadTemplates 7 ''gen-templates.json'' (Inr \<lparr>ctx_db = 7, ctx_packageId = 2\<rparr>),
      CreateBlankSession 7 (Inr 3), InitializeSessionPackage 7 3 (Inr 3),
      GenerateAndWriteFiles 7 3 2 ''out'' (Some False) (Inr ())]"
    "trace (snd (startGeneration demo ''out'' ''gen-templates.json'' ''zcl.properties'' None
      (Some \<lparr>options_quit = Some True, options_cleanDb = None, options_log = None\<rparr>)
      (disk [(''generate.sqlite'', ''stale'')]))) =
     [InitDatabase ''generate.sqlite'' (Inr 7), ResolveMainDatabase 7 (Inr 7),
      LoadSchema 7 ''zap-schema.sql'' ''1.0'' (Inr 7),
      LoadZcl 7 ''zcl.properties'' (Inr \<lparr>ctx_db = 7, ctx_packageId = 1\<rparr>),
      LoadTemplates 7 ''gen-templates.json'' (Inr \<lparr>ctx_db = 7, ctx_packageId = 2\<rparr>),
      CreateBlankSession 7 (Inr 3), InitializeSessionPackage 7 3 (Inr 3),
      GenerateAndWriteFiles 7 3 2 ''out'' None (Inr ()), AppQuit]"
    by (simp_all add: startGeneration_def startGeneration_chain_def demo_exec)
  have sdk_runs:
    "trace (snd (startSdkGeneration demo demo_args ''sdk'' None None
      (disk [(''sdk-regen.sqlite'', ''stale'')]))) =
     [LogInfo ''Start SDK generation...'',
      ExistsSync ''sdk-regen.sqlite'' True, UnlinkSync ''sdk-regen.sqlite'' (Inr ()),
      InitDatabase ''sdk-regen.sqlite'' (Inr 7), ResolveMainDatabase 7 (Inr 7),
      LoadSchema 7 ''zap-schema.sql'' ''1.0'' (Inr 7),
      LoadZcl 7 ''zcl-builtin.properties'' (Inr \<lparr>ctx_db = 7, ctx_packageId = 1\<rparr>),
      RunSdkGeneration 7 ''sdk'' (Inr ()), AppQuit]"
    "trace (snd (startSdkGeneration demo demo_args ''sdk'' None
      (Some \<lparr>options_quit = None, options_cleanDb = Some True, options_log = None\<rparr>)
      (disk [(''sdk-regen.sqlite'', ''stale'')]))) =
     [LogInfo ''Start SDK generation...'',
      ExistsSync ''sdk-regen.sqlite'' True, UnlinkSync ''sdk-regen.sqlite'' (Inr ()),
      InitDatabase ''sdk-regen.sqlite'' (Inr 7), ResolveMainDatabase 7 (Inr 7),
      LoadSchema 7 ''zap-schema.sql'' ''1.0'' (Inr 7),
      LoadZcl 7 ''zcl-builtin.properties'' (Inr \<lparr>ctx_db = 7, ctx_packageId = 1\<rparr>),
      RunSdkGeneration 7 ''sdk'' (Inr ())]"
    by (simp_all add: startSdkGeneration_def startSdkGeneration_chain_def demo_exec demo_args_def)
  from same runs sdk_runs show ?thesis by (intro conjI)
qed

lemma calm_preamble [simp]:
  "list_all calm (generation_banner opts output tpl zcl zapFile)"
  "list_all calm (removal_events flag p x)"
  "list_all calm (selfcheck_banner opts)"
  by (simp_all add: generation_banner_def removal_events_def selfcheck_banner_def calm_def err_of_def
      split: option.splits)

lemma rejected_once_after_calm:
  "list_all calm pre \<Longrightarrow> rejected_once e evs \<Longrightarrow> rejected_once e (pre @ evs)"
  by (auto simp: rejected_once_def split: list.splits)

lemma gen_chain_fail_fast:
  assumes "startGeneration_chain c output tpl zcl opts dbFile s = (rc, s')"
  shows "\<exists>evs. trace s' = trace s @ evs \<and>
     (case rc of Inr u \<Rightarrow> list_all calm evs | Inl e \<Rightarrow> rejected_once e evs)"
  using assms unfolding startGeneration_chain_def Let_def then_p_assoc
  by (auto simp: run_chain calm_def rejected_once_def err_of_def split: prod.splits sum.splits if_splits)

lemma sdk_chain_fail_fast:
  assumes "startSdkGeneration_chain c a dir zp opts dbFile s = (rc, s')"
  shows "\<exists>evs. trace s' = trace s @ evs \<and>
     (case rc of Inr u \<Rightarrow> list_all calm evs | Inl e \<Rightarrow> rejected_once e evs)"
  using assms unfolding startSdkGeneration_chain_def then_p_assoc
  by (auto simp: run_chain calm_def rejected_once_def err_of_def split: prod.splits sum.splits if_splits)

lemma selfcheck_chain_fail_fast:
  assumes "startSelfCheck_chain c a opts dbFile s = (rc, s')"
  shows "\<exists>evs. trace s' = trace s @ evs \<and>
     (case rc of Inr u \<Rightarrow> list_all calm evs | Inl e \<Rightarrow> rejected_once e evs)"
  using assms unfolding startSelfCheck_chain_def then_p_assoc
  by (auto simp: run_chain calm_def rejected_once_def err_of_def split: prod.splits sum.splits if_splits)

lemma normal_chain_fail_fast:
  assumes "startNormal_chain c a ui su um s = (rc, s')"
  shows "\<exists>evs. trace s' = trace s @ evs \<and>
     (case rc of
        Inl e \<Rightarrow> rejected_once e evs
      | Inr u \<Rightarrow>
          list_all calm evs \<or>
          (ui \<and>
           (\<exists>e p before.
              evs = before @ [InitializeElectronUi p um (Inr ()), UnhandledRejection e] @
                (if args_noServer a then [AppQuit] else []) \<and>
              list_all calm before)))"
  using assms unfolding startNormal_chain_def then_p_assoc
  by (cases "args_noServer a"; cases ui)
    (auto simp: run_chain calm_def rejected_once_def err_of_def append_eq_Cons_conv Cons_eq_append_conv
      split: prod.splits sum.splits option.splits if_splits)

lemma dropped_fail_fast:
  assumes "trace s1 = trace s0 @ evs"
    and "case rc of Inr u \<Rightarrow> list_all calm evs | Inl e \<Rightarrow> rejected_once e evs"
    and "trace s0 = trace s @ pre" and "list_all calm pre"
  shows "\<exists>all. trace (dropped (rc, s1)) = trace s @ all \<and>
     (list_all calm all \<or> (\<exists>e before. all = before @ [UnhandledRejection e] \<and> rejected_once e before))"
proof (cases rc)
  case (Inl e)
  with assms have "trace (dropped (rc, s1)) = trace s @ (pre @ evs) @ [UnhandledRejection e]"
    and "rejected_once e (pre @ evs)"
    by (simp_all add: dropped_def rejected_once_after_calm)
  then show ?thesis by blast
next
  case (Inr u)
  with assms have "trace (dropped (rc, s1)) = trace s @ (pre @ evs)" and "list_all calm (pre @ evs)"
    by (simp_all add: dropped_def)
  then show ?thesis by blast
qed

text \<open>
  C2, as amended. In every run mode, when a call whose promise is returned into the chain
  fails (a call inside a callback by throwing or by rejecting its promise, the opening of the
  database by rejecting its promise), nothing is called after it but \<^verbatim>\<open>env.logError\<close>,
  once, with the error of that call, and the promise of the chain is rejected with the same
  error; when the promise is fulfilled, no such call has failed and nothing was logged as an
  error. \<^verbatim>\<open>startGeneration\<close> and \<^verbatim>\<open>startSdkGeneration\<close> return this promise to their
  caller. \<^verbatim>\<open>startNormal\<close> and \<^verbatim>\<open>startSelfCheck\<close> return \<^verbatim>\<open>undefined\<close>: there the
  rejection stays unhandled. In \<^verbatim>\<open>startNormal\<close> the result of
  \<^verbatim>\<open>windowJs.initializeElectronUi\<close> is not returned into the chain: when it is a promise
  that rejects, after calm calls only, the rejection stays unhandled, nothing is logged, and
  the chain goes on to \<^verbatim>\<open>app.quit()\<close> when the command line asks for no server. The
  statement is about failures inside the chain: \<^verbatim>\<open>dbApi.initDatabase\<close> is called in the
  caller's turn, before any callback, and is taken to fail by rejecting its promise; a
  synchronous throw of it is outside what is stated here, as is the throw of
  \<^verbatim>\<open>fs.unlinkSync\<close> before the chain, which is not logged.
\<close>

theorem chain_fails_fast_and_logs_once:
  "(startGeneration c output genTemplateJsonFile zclProperties zapFile options_arg s =
        (ReturnsPromise rc, s') \<longrightarrow>
      (\<exists>evs. trace s' = trace s @ evs \<and>
         (case rc of Inr u \<Rightarrow> list_all calm evs | Inl e \<Rightarrow> rejected_once e evs))) \<and>
   (startSdkGeneration c a generationDir zclPropertiesFilePath sdk_options_arg t =
        (ReturnsPromise rc', t') \<longrightarrow>
      (\<exists>evs. trace t' = trace t @ evs \<and>
         (case rc' of Inr u \<Rightarrow> list_all calm evs | Inl e \<Rightarrow> rejected_once e evs))) \<and>
   (startSelfCheck c a check_options_arg u = (ReturnsUndefined, u') \<longrightarrow>
      (\<exists>evs. trace u' = trace u @ evs \<and>
         (list_all calm evs \<or>
          (\<exists>e before. evs = before @ [UnhandledRejection e] \<and> rejected_once e before)))) \<and>
   (startNormal c a uiEnabled showUrl uiMode v = (rn, v') \<longrightarrow>
      rn = ReturnsUndefined \<and>
      (\<exists>evs. trace v' = trace v @ evs \<and>
         (list_all calm evs \<or>
          (\<exists>e before. evs = before @ [UnhandledRejection e] \<and> rejected_once e before) \<or>
          (uiEnabled \<and>
           (\<exists>e p before.
              evs = before @ [InitializeElectronUi p uiMode (Inr ()), UnhandledRejection e] @
                (if args_noServer a then [AppQuit] else []) \<and>
              list_all calm before)))))"
proof -
  have gen: "\<exists>evs. trace s' = trace s @ evs \<and>
         (case rc of Inr u \<Rightarrow> list_all calm evs | Inl e \<Rightarrow> rejected_once e evs)"
    if run: "startGeneration c output genTemplateJsonFile zclProperties zapFile options_arg s =
        (ReturnsPromise rc, s')"
    using run
  proof (cases rule: startGeneration_run)
    case (threw f)
    then show ?thesis by simp
  next
    case (chained rc0 s0)
    from gen_chain_fail_fast [OF chained(2)] obtain evs where
      evs: "trace s' = trace s0 @ evs"
        "case rc0 of Inr u \<Rightarrow> list_all calm evs | Inl e \<Rightarrow> rejected_once e evs"
      by blast
    let ?pre = "generation_banner (default_arg startGeneration_default options_arg) output
        genTemplateJsonFile zclProperties zapFile @
      removal_events (truthy (options_cleanDb (default_arg startGeneration_default options_arg)))
        (env_sqliteFile c (Some ''generate'')) (sys s)"
    have "trace s' = trace s @ ?pre @ evs" using evs(1) chained(4) by simp
    moreover have "case rc of Inr u \<Rightarrow> list_all calm (?pre @ evs) | Inl e \<Rightarrow> rejected_once e (?pre @ evs)"
      using evs(2) chained(1) by (auto simp: rejected_once_after_calm split: sum.splits)
    ultimately show ?thesis by blast
  qed
  have sdk: "\<exists>evs. trace t' = trace t @ evs \<and>
         (case rc' of Inr u \<Rightarrow> list_all calm evs | Inl e \<Rightarrow> rejected_once e evs)"
    if run: "startSdkGeneration c a generationDir zclPropertiesFilePath sdk_options_arg t =
        (ReturnsPromise rc', t')"
    using run
  proof (cases rule: startSdkGeneration_run)
    case (threw f)
    then show ?thesis by simp
  next
    case (chained rc0 s0)
    from sdk_chain_fail_fast [OF chained(2)] obtain evs where
      evs: "trace t' = trace s0 @ evs"
        "case rc0 of Inr u \<Rightarrow> list_all calm evs | Inl e \<Rightarrow> rejected_once e evs"
      by blast
    let ?pre = "LogInfo ''Start SDK generation...'' #
      removal_events (truthy (options_cleanDb (default_arg startSdkGeneration_default sdk_options_arg)))
        (env_sqliteFile c (Some ''sdk-regen'')) (sys t)"
    have calm_pre: "list_all calm ?pre" by (simp add: calm_def)
    have "trace t' = trace t @ ?pre @ evs" using evs(1) chained(4) by simp
    moreover have "case rc' of Inr u \<Rightarrow> list_all calm (?pre @ evs) | Inl e \<Rightarrow> rejected_once e (?pre @ evs)"
      using evs(2) chained(1) rejected_once_after_calm [OF calm_pre] calm_pre
      by (auto split: sum.splits)
    ultimately show ?thesis by blast
  qed
  have check: "\<exists>evs. trace u' = trace u @ evs \<and>
         (list_all calm evs \<or>
          (\<exists>e before. evs = before @ [UnhandledRejection e] \<and> rejected_once e before))"
    if run: "startSelfCheck c a check_options_arg u = (ReturnsUndefined, u')"
    using run
  proof (cases rule: startSelfCheck_run)
    case (threw f)
    then show ?thesis by simp
  next
    case (chained rc0 s0 s1)
    from selfcheck_chain_fail_fast [OF chained(2)] obtain evs where
      evs: "trace s1 = trace s0 @ evs"
        "case rc0 of Inr u \<Rightarrow> list_all calm evs | Inl e \<Rightarrow> rejected_once e evs"
      by blast
    from dropped_fail_fast [OF evs chained(5)] chained(3) show ?thesis by simp
  qed
  have normal: "rn = ReturnsUndefined \<and>
      (\<exists>evs. trace v' = trace v @ evs \<and>
         (list_all calm evs \<or>
          (\<exists>e before. evs = before @ [UnhandledRejection e] \<and> rejected_once e before) \<or>
          (uiEnabled \<and>
           (\<exists>e p before.
              evs = before @ [InitializeElectronUi p uiMode (Inr ()), UnhandledRejection e] @
                (if args_noServer a then [AppQuit] else []) \<and>
              list_all calm before))))"
    if run: "startNormal c a uiEnabled showUrl uiMode v = (rn, v')"
  proof -
    obtain rc0 s1 where ch: "startNormal_chain c a uiEnabled showUrl uiMode v = (rc0, s1)"
      by (cases "startNormal_chain c a uiEnabled showUrl uiMode v")
    from run ch have rn: "rn = ReturnsUndefined" and v': "v' = dropped (rc0, s1)"
      by (simp_all add: startNormal_def)
    from normal_chain_fail_fast [OF ch] obtain evs where
      evs: "trace s1 = trace v @ evs"
      and shape: "case rc0 of
          Inl e \<Rightarrow> rejected_once e evs
        | Inr u \<Rightarrow>
            list_all calm evs \<or>
            (uiEnabled \<and>
             (\<exists>e p before.
                evs = before @ [InitializeElectronUi p uiMode (Inr ()), UnhandledRejection e] @
                  (if args_noServer a then [AppQuit] else []) \<and>
                list_all calm before))"
      by blast
    show ?thesis
    proof (cases rc0)
      case (Inl e)
      with evs shape v' have "trace v' = trace v @ (evs @ [UnhandledRejection e])"
        and "rejected_once e evs"
        by (simp_all add: dropped_def)
      with rn show ?thesis by blast
    next
      case (Inr u)
      with evs v' have "trace v' = trace v @ evs" by (simp add: dropped_def)
      with Inr shape rn show ?thesis by auto
    qed
  qed
  from gen sdk check normal show ?thesis by blast
qed

theorem chain_fails_fast_and_logs_once_witness:
  "fst (startGeneration demo_schema_fails ''out'' ''gen-templates.json'' ''zcl.properties'' None None
      (disk [])) = ReturnsPromise (Inl (Failure ''schema'')) \<and>
   rejected_once (Failure ''schema'')
     (trace (snd (startGeneration demo_schema_fails ''out'' ''gen-templates.json'' ''zcl.properties''
        None None (disk [])))) \<and>
   fst (startSdkGeneration demo_schema_fails demo_args ''sdk-out'' None None (disk [])) =
     ReturnsPromise (Inl (Failure ''schema'')) \<and>
   rejected_once (Failure ''schema'')
     (trace (snd (startSdkGeneration demo_schema_fails demo_args ''sdk-out'' None None (disk [])))) \<and>
   (\<exists>before. trace (snd (startSelfCheck demo_schema_fails demo_args None (disk []))) =
        before @ [UnhandledRejection (Failure ''schema'')] \<and>
      rejected_once (Failure ''schema'') before) \<and>
   (\<exists>before. trace (snd (startNormal demo_schema_fails demo_args True False ''zigbee'' (disk []))) =
        before @ [UnhandledRejection (Failure ''schema'')] \<and>
      rejected_once (Failure ''schema'') before) \<and>
   (\<exists>before. trace (snd (startNormal demo_window_rejects
        (demo_args\<lparr>args_noServer := True\<rparr>) True False ''zigbee'' (disk []))) =
        before @ [InitializeElectronUi 9070 ''zigbee'' (Inr ()),
          UnhandledRejection (Failure ''window''), AppQuit] \<and>
      list_all calm before)"
proof -
  have gen: "fst (startGeneration demo_schema_fails ''out'' ''gen-templates.json'' ''zcl.properties''
        None None (disk [])) = ReturnsPromise (Inl (Failure ''schema'')) \<and>
     rejected_once (Failure ''schema'')
       (trace (snd (startGeneration demo_schema_fails ''out'' ''gen-templates.json'' ''zcl.properties''
          None None (disk []))))"
  proof -
    define s :: "unit state" where "s = disk []"
    define run where
      "run = startGeneration demo_schema_fails ''out'' ''gen-templates.json'' ''zcl.properties'' None None s"
    have ret: "fst run = ReturnsPromise (Inl (Failure ''schema''))"
      unfolding run_def s_def
      by (simp add: startGeneration_def startGeneration_chain_def demo_schema_fails_def demo_exec)
    then have "run = (ReturnsPromise (Inl (Failure ''schema'')), snd run)"
      by (metis surjective_pairing)
    with chain_fails_fast_and_logs_once [where c = demo_schema_fails and ?output = "''out''"
        and genTemplateJsonFile = "''gen-templates.json''" and zclProperties = "''zcl.properties''"
        and zapFile = None and options_arg = None and s = s and rc = "Inl (Failure ''schema'')"
        and s' = "snd run", THEN conjunct1]
    obtain evs where "trace (snd run) = trace s @ evs" "rejected_once (Failure ''schema'') evs"
      unfolding run_def by auto
    moreover have "trace s = []" by (simp add: s_def disk_def)
    ultimately show ?thesis using ret unfolding run_def s_def by simp
  qed
  have sdk: "fst (startSdkGeneration demo_schema_fails demo_args ''sdk-out'' None None (disk [])) =
       ReturnsPromise (Inl (Failure ''schema'')) \<and>
     rejected_once (Failure ''schema'')
       (trace (snd (startSdkGeneration demo_schema_fails demo_args ''sdk-out'' None None (disk []))))"
  proof -
    define s :: "unit state" where "s = disk []"
    define run where "run = startSdkGeneration demo_schema_fails demo_args ''sdk-out'' None None s"
    have ret: "fst run = ReturnsPromise (Inl (Failure ''schema''))"
      unfolding run_def s_def
      by (simp add: startSdkGeneration_def startSdkGeneration_chain_def demo_schema_fails_def
          demo_exec demo_args_def)
    then have "run = (ReturnsPromise (Inl (Failure ''schema'')), snd run)"
      by (metis surjective_pairing)
    with chain_fails_fast_and_logs_once [where c = demo_schema_fails and a = demo_args
        and generationDir = "''sdk-out''" and zclPropertiesFilePath = None and sdk_options_arg = None
        and t = s and rc' = "Inl (Failure ''schema'')" and t' = "snd run",
        THEN conjunct2, THEN conjunct1]
    obtain evs where "trace (snd run) = trace s @ evs" "rejected_once (Failure ''schema'') evs"
      unfolding run_def by auto
    moreover have "trace s = []" by (simp add: s_def disk_def)
    ultimately show ?thesis using ret unfolding run_def s_def by simp
  qed
  have check: "\<exists>before. trace (snd (startSelfCheck demo_schema_fails demo_args None (disk []))) =
        before @ [UnhandledRejection (Failure ''schema'')] \<and>
      rejected_once (Failure ''schema'') before"
  proof -
    define s :: "unit state" where "s = disk []"
    define run where "run = startSelfCheck demo_schema_fails demo_args None s"
    have ret: "fst run = ReturnsUndefined"
      and lst: "last (trace (snd run)) = UnhandledRejection (Failure ''schema'')"
      and unrest: "\<not> list_all calm (trace (snd run))"
      unfolding run_def s_def
      by (simp_all add: startSelfCheck_def startSelfCheck_chain_def demo_schema_fails_def
          demo_exec demo_args_def calm_def err_of_def)
    from ret have "run = (ReturnsUndefined, snd run)"
      by (metis surjective_pairing)
    with chain_fails_fast_and_logs_once [where c = demo_schema_fails and a = demo_args
        and check_options_arg = None and u = s and u' = "snd run",
        THEN conjunct2, THEN conjunct2, THEN conjunct1]
    obtain evs where evs: "trace (snd run) = trace s @ evs"
      "list_all calm evs \<or>
        (\<exists>e before. evs = before @ [UnhandledRejection e] \<and> rejected_once e before)"
      unfolding run_def by auto
    have start: "trace s = []" by (simp add: s_def disk_def)
    with evs unrest obtain e before where
      "trace (snd run) = before @ [UnhandledRejection e]" "rejected_once e before"
      by auto
    with lst show ?thesis unfolding run_def s_def by auto
  qed
  have normal: "\<exists>before. trace (snd (startNormal demo_schema_fails demo_args True False ''zigbee''
        (disk []))) = before @ [UnhandledRejection (Failure ''schema'')] \<and>
      rejected_once (Failure ''schema'') before"
  proof -
    define s :: "unit state" where "s = disk []"
    define run where "run = startNormal demo_schema_fails demo_args True False ''zigbee'' s"
    have tr: "trace (snd run) =
       [InitDatabase ''zap.sqlite'' (Inr 7), ResolveMainDatabase 7 (Inr 7),
        LoadSchema 7 ''zap-schema.sql'' ''1.0'' (Inl (Failure ''schema'')),
        LogError (Failure ''schema''), UnhandledRejection (Failure ''schema'')]"
      unfolding run_def s_def
      by (simp add: startNormal_def startNormal_chain_def demo_schema_fails_def
          demo_exec demo_args_def)
    have start: "trace s = []" by (simp add: s_def disk_def)
    from chain_fails_fast_and_logs_once [where c = demo_schema_fails and a = demo_args
        and uiEnabled = True and showUrl = False and uiMode = "''zigbee''" and v = s
        and rn = "fst run" and v' = "snd run",
        THEN conjunct2, THEN conjunct2, THEN conjunct2]
    obtain evs where evs: "trace (snd run) = trace s @ evs"
      and shape: "list_all calm evs \<or>
        (\<exists>e before. evs = before @ [UnhandledRejection e] \<and> rejected_once e before) \<or>
        (\<exists>e p before.
           evs = before @ [InitializeElectronUi p ''zigbee'' (Inr ()), UnhandledRejection e] @
             (if args_noServer demo_args then [AppQuit] else []) \<and>
           list_all calm before)"
      unfolding run_def by auto
    from evs start tr have explicit: "evs =
       [InitDatabase ''zap.sqlite'' (Inr 7), ResolveMainDatabase 7 (Inr 7),
        LoadSchema 7 ''zap-schema.sql'' ''1.0'' (Inl (Failure ''schema'')),
        LogError (Failure ''schema''), UnhandledRejection (Failure ''schema'')]"
      by simp
    have unrest: "\<not> list_all calm evs"
      unfolding explicit by (simp add: calm_def err_of_def)
    have no_window: "InitializeElectronUi p m r \<notin> set evs" for p m r
      unfolding explicit by simp
    have "\<not> (\<exists>e p before.
           evs = before @ [InitializeElectronUi p ''zigbee'' (Inr ()), UnhandledRejection e] @
             (if args_noServer demo_args then [AppQuit] else []) \<and>
           list_all calm before)"
    proof
      assume "\<exists>e p before.
           evs = before @ [InitializeElectronUi p ''zigbee'' (Inr ()), UnhandledRejection e] @
             (if args_noServer demo_args then [AppQuit] else []) \<and>
           list_all calm before"
      then obtain e p before where "evs =
          before @ [InitializeElectronUi p ''zigbee'' (Inr ()), UnhandledRejection e] @
            (if args_noServer demo_args then [AppQuit] else [])"
        by blast
      then have "InitializeElectronUi p ''zigbee'' (Inr ()) \<in> set evs"
        by simp
      with no_window show False by blast
    qed
    with shape unrest obtain e before where
      split: "evs = before @ [UnhandledRejection e]" and once: "rejected_once e before"
      by blast
    from split explicit have "last (before @ [UnhandledRejection e]) =
        last [InitDatabase ''zap.sqlite'' (Inr 7), ResolveMainDatabase 7 (Inr 7),
          LoadSchema 7 ''zap-schema.sql'' ''1.0'' (Inl (Failure ''schema'')),
          LogError (Failure ''schema''), UnhandledRejection (Failure ''schema'')]"
      by simp
    then have "e = Failure ''schema''" by simp
    with split once evs start show ?thesis unfolding run_def s_def by auto
  qed
  have window: "\<exists>before. trace (snd (startNormal demo_window_rejects
        (demo_args\<lparr>args_noServer := True\<rparr>) True False ''zigbee'' (disk []))) =
        before @ [InitializeElectronUi 9070 ''zigbee'' (Inr ()),
          UnhandledRejection (Failure ''window''), AppQuit] \<and>
      list_all calm before"
  proof -
    define s :: "unit state" where "s = disk []"
    define quitting where "quitting = demo_args\<lparr>args_noServer := True\<rparr>"
    define run where "run = startNormal demo_window_rejects quitting True False ''zigbee'' s"
    have tr: "trace (snd run) =
       [InitDatabase ''zap.sqlite'' (Inr 7), ResolveMainDatabase 7 (Inr 7),
        LoadSchema 7 ''zap-schema.sql'' ''1.0'' (Inr 7),
        LoadZcl 7 ''zcl-builtin.properties'' (Inr \<lparr>ctx_db = 7, ctx_packageId = 1\<rparr>),
        LoadTemplates 7 ''templates-builtin.json'' (Inr \<lparr>ctx_db = 7, ctx_packageId = 2\<rparr>),
        InitializeElectronUi 9070 ''zigbee'' (Inr ()),
        UnhandledRejection (Failure ''window''), AppQuit]"
      unfolding run_def s_def quitting_def
      by (simp add: startNormal_def startNormal_chain_def demo_window_rejects_def
          demo_exec demo_args_def)
    have start: "trace s = []" by (simp add: s_def disk_def)
    from chain_fails_fast_and_logs_once [where c = demo_window_rejects and a = quitting
        and uiEnabled = True and showUrl = False and uiMode = "''zigbee''" and v = s
        and rn = "fst run" and v' = "snd run",
        THEN conjunct2, THEN conjunct2, THEN conjunct2]
    obtain evs where evs: "trace (snd run) = trace s @ evs"
      and shape: "list_all calm evs \<or>
        (\<exists>e before. evs = before @ [UnhandledRejection e] \<and> rejected_once e before) \<or>
        (\<exists>e p before.
           evs = before @ [InitializeElectronUi p ''zigbee'' (Inr ()), UnhandledRejection e] @
             (if args_noServer quitting then [AppQuit] else []) \<and>
           list_all calm before)"
      unfolding run_def by auto
    from evs start tr have explicit: "evs =
       [InitDatabase ''zap.sqlite'' (Inr 7), ResolveMainDatabase 7 (Inr 7),
        LoadSchema 7 ''zap-schema.sql'' ''1.0'' (Inr 7),
        LoadZcl 7 ''zcl-builtin.properties'' (Inr \<lparr>ctx_db = 7, ctx_packageId = 1\<rparr>),
        LoadTemplates 7 ''templates-builtin.json'' (Inr \<lparr>ctx_db = 7, ctx_packageId = 2\<rparr>),
        InitializeElectronUi 9070 ''zigbee'' (Inr ()),
        UnhandledRejection (Failure ''window''), AppQuit]"
      by simp
    have unrest: "\<not> list_all calm evs"
      unfolding explicit by (simp add: calm_def err_of_def)
    have last: "last evs = AppQuit" unfolding explicit by simp
    have "\<not> (\<exists>e before. evs = before @ [UnhandledRejection e] \<and> rejected_once e before)"
    proof
      assume "\<exists>e before. evs = before @ [UnhandledRejection e] \<and> rejected_once e before"
      then obtain e where "last evs = UnhandledRejection e" by auto
      with last show False by simp
    qed
    with shape unrest obtain e p before where
      split: "evs = before @ [InitializeElectronUi p ''zigbee'' (Inr ()), UnhandledRejection e] @
             (if args_noServer quitting then [AppQuit] else [])"
      and calm: "list_all calm before"
      by blast
    have "args_noServer quitting" by (simp add: quitting_def)
    with split have "evs = before @ [InitializeElectronUi p ''zigbee'' (Inr ()), UnhandledRejection e,
        AppQuit]" by simp
    with explicit have "rev (before @ [InitializeElectronUi p ''zigbee'' (Inr ()), UnhandledRejection e, AppQuit]) =
       rev [InitDatabase ''zap.sqlite'' (Inr 7), ResolveMainDatabase 7 (Inr 7),
        LoadSchema 7 ''zap-schema.sql'' ''1.0'' (Inr 7),
        LoadZcl 7 ''zcl-builtin.properties'' (Inr \<lparr>ctx_db = 7, ctx_packageId = 1\<rparr>),
        LoadTemplates 7 ''templates-builtin.json'' (Inr \<lparr>ctx_db = 7, ctx_packageId = 2\<rparr>),
        InitializeElectronUi 9070 ''zigbee'' (Inr ()), UnhandledRejection (Failure ''window''), AppQuit]"
      by simp
    then have "p = 9070 \<and> e = Failure ''window''"
      by simp
    with \<open>evs = before @ [InitializeElectronUi p ''zigbee'' (Inr ()), UnhandledRejection e, AppQuit]\<close>
      calm evs start
    show ?thesis unfolding run_def s_def quitting_def by auto
  qed
  from gen sdk check normal window show ?thesis by blast
qed


text \<open>
  Three failures that the code treats otherwise. A self-check whose schema cannot be loaded
  returns \<^verbatim>\<open>undefined\<close> to its caller, the rejection staying unhandled. A generation whose
  database file cannot be removed throws from \<^verbatim>\<open>fs.unlinkSync\<close> before the chain exists,
  and nothing is passed to \<^verbatim>\<open>env.logError\<close>. An interactive start without a server, whose
  window module returns a promise that rejects, logs nothing and goes on to \<^verbatim>\<open>app.quit()\<close>.
\<close>

theorem failure_not_always_logged_and_reraised:
  "startSelfCheck demo_schema_fails demo_args None (disk []) =
     (ReturnsUndefined,
      \<lparr>sys = \<lparr>files = [''self-check.sqlite'' \<mapsto> \<lparr>content = ''sqlite'', locked = False\<rparr>], hidden = ()\<rparr>,
       trace =
         [LogInitStdout, ConsoleLog StartingSelfCheck,
          ExistsSync ''self-check.sqlite'' False,
          InitDatabase ''self-check.sqlite'' (Inr 7),
          ConsoleLog DatabaseInitialized,
          ResolveMainDatabase 7 (Inr 7),
          LoadSchema 7 ''zap-schema.sql'' ''1.0'' (Inl (Failure ''schema'')),
          LogError (Failure ''schema''),
          UnhandledRejection (Failure ''schema'')]\<rparr>) \<and>
   startGeneration demo ''out'' ''gen-templates.json'' ''zcl.properties'' None None
     \<lparr>sys = \<lparr>files = [''generate.sqlite'' \<mapsto> \<lparr>content = ''stale'', locked = True\<rparr>], hidden = ()\<rparr>,
      trace = []\<rparr> =
     (Threw (EPERM ''generate.sqlite''),
      \<lparr>sys = \<lparr>files = [''generate.sqlite'' \<mapsto> \<lparr>content = ''stale'', locked = True\<rparr>], hidden = ()\<rparr>,
       trace =
         [ConsoleLog (GenerationInformation ''out'' ''gen-templates.json'' ''zcl.properties''),
          ConsoleLog UsingEmptyConfiguration,
          ExistsSync ''generate.sqlite'' True,
          UnlinkSync ''generate.sqlite'' (Inl (EPERM ''generate.sqlite''))]\<rparr>) \<and>
   trace (snd (startNormal demo_window_rejects (demo_args\<lparr>args_noServer := True\<rparr>) True False
      ''zigbee'' (disk []))) =
     [InitDatabase ''zap.sqlite'' (Inr 7), ResolveMainDatabase 7 (Inr 7),
      LoadSchema 7 ''zap-schema.sql'' ''1.0'' (Inr 7),
      LoadZcl 7 ''zcl-builtin.properties'' (Inr \<lparr>ctx_db = 7, ctx_packageId = 1\<rparr>),
      LoadTemplates 7 ''templates-builtin.json'' (Inr \<lparr>ctx_db = 7, ctx_packageId = 2\<rparr>),
      InitializeElectronUi 9070 ''zigbee'' (Inr ()),
      UnhandledRejection (Failure ''window''),
      AppQuit]"
  by (simp add: startSelfCheck_def startSelfCheck_chain_def startGeneration_def
      startNormal_def startNormal_chain_def
      demo_schema_fails_def demo_window_rejects_def demo_exec demo_args_def)

lemma normal_chain_end:
  assumes "startNormal_chain c a uiEnabled showUrl uiMode s = (rc, s')"
  shows "\<exists>evs. trace s' = trace s @ evs \<and>
     (case rc of
        Inl e \<Rightarrow> \<not> list_all (\<lambda>ev. failure ev = None) evs
      | Inr u \<Rightarrow>
          list_all (\<lambda>ev. failure ev = None) evs \<and>
          count_list evs AppQuit = (if args_noServer a then 1 else 0) \<and>
          ((\<exists>p. ConsoleLog (LandingPageUrl p) \<in> set evs) =
             (\<not> uiEnabled \<and> showUrl \<and> \<not> args_noServer a)) \<and>
          (args_noServer a \<longrightarrow>
             (\<exists>before. evs = before @ [AppQuit]) \<and> (\<forall>d p r. InitHttpServer d p r \<notin> set evs)) \<and>
          (\<not> args_noServer a \<longrightarrow> (\<exists>d. InitHttpServer d (args_httpPort a) (Inr ()) \<in> set evs)) \<and>
          (uiEnabled \<longrightarrow> (\<exists>p. InitializeElectronUi p uiMode (Inr ()) \<in> set evs)))"
  using assms unfolding startNormal_chain_def then_p_assoc
  by (cases "args_noServer a"; cases uiEnabled; cases showUrl; cases "app_dock c")
    (auto simp: run_chain err_of_def split: prod.splits sum.splits option.splits)

text \<open>
  C4, as amended. \<^verbatim>\<open>startNormal\<close> returns \<^verbatim>\<open>undefined\<close>. In a run in which no call failed,
  \<^verbatim>\<open>app.quit()\<close> is called, once and as the last call, exactly when the command line asks for
  no server; the landing-page line is printed exactly when the UI is disabled, \<^verbatim>\<open>showUrl\<close>
  is set and a server is asked for, hence never in a run that quits. With a server, the HTTP
  server has been started on the port of the command line and the process stays; with the UI
  enabled, the Electron UI has been initialized.
\<close>

theorem startNormal_quits_only_without_server:
  assumes run: "startNormal c a uiEnabled showUrl uiMode s = (r, s')"
  shows "r = ReturnsUndefined \<and>
     (\<exists>evs. trace s' = trace s @ evs \<and>
        (list_all (\<lambda>ev. failure ev = None) evs \<longrightarrow>
           count_list evs AppQuit = (if args_noServer a then 1 else 0) \<and>
           ((\<exists>p. ConsoleLog (LandingPageUrl p) \<in> set evs) =
              (\<not> uiEnabled \<and> showUrl \<and> \<not> args_noServer a)) \<and>
           (args_noServer a \<longrightarrow>
              (\<exists>before. evs = before @ [AppQuit]) \<and> (\<forall>d p r. InitHttpServer d p r \<notin> set evs)) \<and>
           (\<not> args_noServer a \<longrightarrow> (\<exists>d. InitHttpServer d (args_httpPort a) (Inr ()) \<in> set evs)) \<and>
           (uiEnabled \<longrightarrow> (\<exists>p. InitializeElectronUi p uiMode (Inr ()) \<in> set evs))))"
proof -
  obtain rc s1 where ch: "startNormal_chain c a uiEnabled showUrl uiMode s = (rc, s1)"
    by (cases "startNormal_chain c a uiEnabled showUrl uiMode s")
  from normal_chain_end [OF ch] obtain evs where
    evs: "trace s1 = trace s @ evs"
    and shape: "case rc of
        Inl e \<Rightarrow> \<not> list_all (\<lambda>ev. failure ev = None) evs
      | Inr u \<Rightarrow>
          list_all (\<lambda>ev. failure ev = None) evs \<and>
          count_list evs AppQuit = (if args_noServer a then 1 else 0) \<and>
          ((\<exists>p. ConsoleLog (LandingPageUrl p) \<in> set evs) =
             (\<not> uiEnabled \<and> showUrl \<and> \<not> args_noServer a)) \<and>
          (args_noServer a \<longrightarrow>
             (\<exists>before. evs = before @ [AppQuit]) \<and> (\<forall>d p r. InitHttpServer d p r \<notin> set evs)) \<and>
          (\<not> args_noServer a \<longrightarrow> (\<exists>d. InitHttpServer d (args_httpPort a) (Inr ()) \<in> set evs)) \<and>
          (uiEnabled \<longrightarrow> (\<exists>p. InitializeElectronUi p uiMode (Inr ()) \<in> set evs))"
    by blast
  from run ch have r: "r = ReturnsUndefined" and s': "s' = dropped (rc, s1)"
    by (simp_all add: startNormal_def)
  show ?thesis
  proof (cases rc)
    case (Inl e)
    with evs shape s' have "trace s' = trace s @ (evs @ [UnhandledRejection e])"
      and "\<not> list_all (\<lambda>ev. failure ev = None) (evs @ [UnhandledRejection e])"
      by (simp_all add: dropped_def)
    with r show ?thesis by blast
  next
    case (Inr u)
    with evs s' have "trace s' = trace s @ evs" by (simp add: dropped_def)
    with Inr shape r show ?thesis by auto
  qed
qed

theorem startNormal_quits_only_without_server_witness:
  "count_list (trace (snd (startNormal demo demo_args True False ''zigbee'' (disk [])))) AppQuit = 0 \<and>
   InitHttpServer 7 9070 (Inr ())
     \<in> set (trace (snd (startNormal demo demo_args True False ''zigbee'' (disk [])))) \<and>
   ConsoleLog (LandingPageUrl 9070)
     \<in> set (trace (snd (startNormal demo demo_args False True ''zigbee'' (disk [])))) \<and>
   count_list (trace (snd (startNormal demo (demo_args\<lparr>args_noServer := True\<rparr>) True False
      ''zigbee'' (disk [])))) AppQuit = 1"
proof -
  define s :: "unit state" where "s = disk []"
  have start: "trace s = []" by (simp add: s_def disk_def)
  have served: "count_list (trace (snd (startNormal demo demo_args True False ''zigbee'' s))) AppQuit = 0 \<and>
     InitHttpServer 7 9070 (Inr ()) \<in> set (trace (snd (startNormal demo demo_args True False ''zigbee'' s)))"
  proof -
    define evs where "evs = trace (snd (startNormal demo demo_args True False ''zigbee'' s))"
    have tr: "evs =
       [InitDatabase ''zap.sqlite'' (Inr 7), ResolveMainDatabase 7 (Inr 7),
        LoadSchema 7 ''zap-schema.sql'' ''1.0'' (Inr 7),
        LoadZcl 7 ''zcl-builtin.properties'' (Inr \<lparr>ctx_db = 7, ctx_packageId = 1\<rparr>),
        LoadTemplates 7 ''templates-builtin.json'' (Inr \<lparr>ctx_db = 7, ctx_packageId = 2\<rparr>),
        InitHttpServer 7 9070 (Inr ()),
        InitializeElectronUi 9070 ''zigbee'' (Inr ())]"
      unfolding evs_def s_def
      by (simp add: startNormal_def startNormal_chain_def demo_exec demo_args_def)
    have quiet: "list_all (\<lambda>ev. failure ev = None) evs"
      unfolding tr by (simp add: err_of_def)
    have server: "\<not> args_noServer demo_args" by (simp add: demo_args_def)
    from startNormal_quits_only_without_server [OF surjective_pairing, of demo demo_args True False
        "''zigbee''" s] quiet start server
    have "count_list evs AppQuit = 0"
      unfolding evs_def by auto
    with tr show ?thesis unfolding evs_def by simp
  qed
  have noticed: "ConsoleLog (LandingPageUrl 9070)
     \<in> set (trace (snd (startNormal demo demo_args False True ''zigbee'' s)))"
  proof -
    define evs where "evs = trace (snd (startNormal demo demo_args False True ''zigbee'' s))"
    have tr: "evs =
       [InitDatabase ''zap.sqlite'' (Inr 7), ResolveMainDatabase 7 (Inr 7),
        LoadSchema 7 ''zap-schema.sql'' ''1.0'' (Inr 7),
        LoadZcl 7 ''zcl-builtin.properties'' (Inr \<lparr>ctx_db = 7, ctx_packageId = 1\<rparr>),
        LoadTemplates 7 ''templates-builtin.json'' (Inr \<lparr>ctx_db = 7, ctx_packageId = 2\<rparr>),
        InitHttpServer 7 9070 (Inr ()),
        ConsoleLog (LandingPageUrl 9070)]"
      unfolding evs_def s_def
      by (simp add: startNormal_def startNormal_chain_def demo_exec demo_args_def)
    have quiet: "list_all (\<lambda>ev. failure ev = None) evs"
      unfolding tr by (simp add: err_of_def)
    have server: "\<not> args_noServer demo_args" by (simp add: demo_args_def)
    from startNormal_quits_only_without_server [OF surjective_pairing, of demo demo_args False True
        "''zigbee''" s] quiet start server
    have "\<exists>p. ConsoleLog (LandingPageUrl p) \<in> set evs"
      unfolding evs_def by auto
    with tr show ?thesis unfolding evs_def by auto
  qed
  have quit: "count_list (trace (snd (startNormal demo (demo_args\<lparr>args_noServer := True\<rparr>) True False
      ''zigbee'' s))) AppQuit = 1"
  proof -
    define evs where
      "evs = trace (snd (startNormal demo (demo_args\<lparr>args_noServer := True\<rparr>) True False ''zigbee'' s))"
    have tr: "evs =
       [InitDatabase ''zap.sqlite'' (Inr 7), ResolveMainDatabase 7 (Inr 7),
        LoadSchema 7 ''zap-schema.sql'' ''1.0'' (Inr 7),
        LoadZcl 7 ''zcl-builtin.properties'' (Inr \<lparr>ctx_db = 7, ctx_packageId = 1\<rparr>),
        LoadTemplates 7 ''templates-builtin.json'' (Inr \<lparr>ctx_db = 7, ctx_packageId = 2\<rparr>),
        InitializeElectronUi 9070 ''zigbee'' (Inr ()),
        AppQuit]"
      unfolding evs_def s_def
      by (simp add: startNormal_def startNormal_chain_def demo_exec demo_args_def)
    have quiet: "list_all (\<lambda>ev. failure ev = None) evs"
      unfolding tr by (simp add: err_of_def)
    have server: "args_noServer (demo_args\<lparr>args_noServer := True\<rparr>)" by simp
    from startNormal_quits_only_without_server [OF surjective_pairing, of demo
        "demo_args\<lparr>args_noServer := True\<rparr>" True False "''zigbee''" s] quiet start server
    show ?thesis
      unfolding evs_def by auto
  qed
  from served noticed quit show ?thesis unfolding s_def by blast
qed


text \<open>
  Without a server, with the UI disabled and \<^verbatim>\<open>showUrl\<close> set, the run quits and prints no
  landing-page line.
\<close>

theorem startNormal_prints_no_url_when_quitting:
  "trace (snd (startNormal demo (demo_args\<lparr>args_noServer := True\<rparr>) False True ''zigbee'' (disk []))) =
     [InitDatabase ''zap.sqlite'' (Inr 7), ResolveMainDatabase 7 (Inr 7),
      LoadSchema 7 ''zap-schema.sql'' ''1.0'' (Inr 7),
      LoadZcl 7 ''zcl-builtin.properties'' (Inr \<lparr>ctx_db = 7, ctx_packageId = 1\<rparr>),
      LoadTemplates 7 ''templates-builtin.json'' (Inr \<lparr>ctx_db = 7, ctx_packageId = 2\<rparr>),
      AppQuit]"
  by (simp add: startNormal_def startNormal_chain_def demo_exec demo_args_def)

lemma lines_simps [simp]:
  "lines [] = []"
  "lines (ev # evs) = (case line_of ev of None \<Rightarrow> lines evs | Some l \<Rightarrow> l # lines evs)"
  "lines (xs @ ys) = lines xs @ lines ys"
  "progress [] = []"
  "progress (ev # evs) = (case progress_of ev of None \<Rightarrow> progress evs | Some l \<Rightarrow> l # progress evs)"
  "progress (xs @ ys) = progress xs @ progress ys"
  by (simp_all add: lines_def progress_def List.map_filter_def split: option.splits)

lemma announced_append:
  "list_all (\<lambda>ev. progress_of ev = None) pre \<Longrightarrow> announced lg (pre @ evs) = announced lg evs"
  by (induction pre) simp_all

lemma selfcheck_preamble [simp]:
  "steps (selfcheck_banner opts) = []"
  "list_all (\<lambda>ev. failure ev = None) (selfcheck_banner opts)"
  "list_all (\<lambda>ev. progress_of ev = None) (selfcheck_banner opts)"
  "list_all (\<lambda>ev. progress_of ev = None) (removal_events flag p x)"
  "progress (selfcheck_banner opts) = []"
  "progress (removal_events flag p x) = []"
  "lines (selfcheck_banner opts) = (if truthy (options_log opts) then [StartingSelfCheck] else [])"
  "lines (removal_events flag p x) = []"
  "AppQuit \<notin> set (selfcheck_banner opts)"
  "AppQuit \<notin> set (removal_events flag p x)"
  by (simp_all add: selfcheck_banner_def removal_events_def progress_of_def line_of_def
      split: option.splits)

lemma selfcheck_chain_shape:
  assumes "startSelfCheck_chain c a opts dbFile s = (rc, s')"
    and "dbApi_initDatabase c dbFile (sys s) = (r1, x1)"
  shows "\<exists>rest. trace s' = trace s @ InitDatabase dbFile r1 # rest \<and>
     prefix (steps (InitDatabase dbFile r1 # rest))
       (selfcheck_plan False dbFile (args_zclPropertiesFile a) (args_genTemplateJsonFile a)) \<and>
     (list_all (\<lambda>ev. failure ev = None) (InitDatabase dbFile r1 # rest) \<longrightarrow>
        steps (InitDatabase dbFile r1 # rest) =
          selfcheck_plan False dbFile (args_zclPropertiesFile a) (args_genTemplateJsonFile a)) \<and>
     each_after_success (InitDatabase dbFile r1 # rest) \<and>
     lines (InitDatabase dbFile r1 # rest) =
       (if truthy (options_log opts)
        then progress (InitDatabase dbFile r1 # rest) @ (if AppQuit \<in> set rest then [SelfCheckDone] else [])
        else []) \<and>
     announced (truthy (options_log opts)) (InitDatabase dbFile r1 # rest) \<and>
     (\<forall>e. rc = Inl e \<longrightarrow> \<not> list_all (\<lambda>ev. failure ev = None) (InitDatabase dbFile r1 # rest))"
  using assms unfolding startSelfCheck_chain_def then_p_assoc
  by (cases "truthy (options_log opts)")
    (auto simp: run_chain err_of_def selfcheck_plan_def progress_of_def line_of_def
      split: prod.splits sum.splits)

lemma selfcheck_chain_frame:
  "startSelfCheck_chain c a opts dbFile s =
     (case startSelfCheck_chain c a opts dbFile \<lparr>sys = sys s, trace = []\<rparr> of
        (rc, s1) \<Rightarrow> (rc, \<lparr>sys = sys s1, trace = trace s @ trace s1\<rparr>))"
  unfolding startSelfCheck_chain_def then_p_assoc
  by (cases "truthy (options_log opts)")
    (auto simp: run_chain emit_def split: prod.splits sum.splits)

lemma announced_snoc:
  "progress_of ev = None \<Longrightarrow> line_of ev = None \<Longrightarrow> announced lg (evs @ [ev]) = announced lg evs"
proof (induction evs)
  case Nil
  then show ?case by simp
next
  case (Cons x xs)
  then show ?case
    by (cases xs) (auto simp: line_of_def split: option.splits)
qed

lemma each_after_success_snoc:
  "step_of ev = None \<Longrightarrow> failure ev = None \<Longrightarrow>
     each_after_success (evs @ [ev]) = each_after_success evs"
  by (induction evs) simp_all

lemma selfcheck_dropped:
  assumes "s' = dropped (rc, s1)" and "trace s1 = trace s @ evs"
    and "\<forall>e. rc = Inl e \<longrightarrow> \<not> list_all (\<lambda>ev. failure ev = None) evs"
  shows "\<exists>tail. trace s' = trace s @ evs @ tail \<and> steps tail = [] \<and> lines tail = [] \<and>
     progress tail = [] \<and> AppQuit \<notin> set tail \<and>
     announced lg (evs @ tail) = announced lg evs \<and>
     each_after_success (evs @ tail) = each_after_success evs \<and>
     (list_all (\<lambda>ev. failure ev = None) (evs @ tail) \<longrightarrow> tail = [])"
proof (cases rc)
  case (Inl e)
  with assms have "trace s' = trace s @ evs @ [UnhandledRejection e]"
    and "\<not> list_all (\<lambda>ev. failure ev = None) (evs @ [UnhandledRejection e])"
    by (simp_all add: dropped_def)
  then show ?thesis
    by (intro exI [of _ "[UnhandledRejection e]"])
      (simp add: announced_snoc each_after_success_snoc progress_of_def line_of_def)
next
  case (Inr u)
  with assms have "trace s' = trace s @ evs @ []" by (simp add: dropped_def)
  then show ?thesis by (intro exI [of _ "[]"]) simp
qed

lemma startSelfCheck_shape:
  assumes run: "startSelfCheck c a options_arg s = (r, s')"
  shows "\<exists>evs. trace s' = trace s @ evs \<and>
     prefix (steps evs)
       (selfcheck_plan (files (sys s) (env_sqliteFile c (Some ''self-check'')) \<noteq> None)
          (env_sqliteFile c (Some ''self-check'')) (args_zclPropertiesFile a) (args_genTemplateJsonFile a)) \<and>
     (list_all (\<lambda>ev. failure ev = None) evs \<longrightarrow>
        steps evs =
          selfcheck_plan (files (sys s) (env_sqliteFile c (Some ''self-check'')) \<noteq> None)
            (env_sqliteFile c (Some ''self-check'')) (args_zclPropertiesFile a)
            (args_genTemplateJsonFile a)) \<and>
     each_after_success evs \<and>
     lines evs =
       (if truthy (options_log (default_arg startSelfCheck_default options_arg))
        then StartingSelfCheck # progress evs @ (if AppQuit \<in> set evs then [SelfCheckDone] else [])
        else []) \<and>
     announced (truthy (options_log (default_arg startSelfCheck_default options_arg))) evs \<and>
     (r = ReturnsUndefined \<longrightarrow>
        (\<exists>rest. evs =
           selfcheck_banner (default_arg startSelfCheck_default options_arg) @
           removal_events True (env_sqliteFile c (Some ''self-check'')) (sys s) @
           InitDatabase (env_sqliteFile c (Some ''self-check''))
             (fst (dbApi_initDatabase c (env_sqliteFile c (Some ''self-check''))
                (removed True (env_sqliteFile c (Some ''self-check'')) (sys s)))) # rest))"
proof -
  define dbFile where "dbFile = env_sqliteFile c (Some ''self-check'')"
  define opts where "opts = default_arg startSelfCheck_default options_arg"
  define lg where "lg = truthy (options_log opts)"
  let ?plan = "\<lambda>removes.
    selfcheck_plan removes dbFile (args_zclPropertiesFile a) (args_genTemplateJsonFile a)"
  have plan: "?plan removes = (if removes then [EnsureFresh dbFile] else []) @ ?plan False" for removes
    by (simp add: selfcheck_plan_def)
  have plan_removing: "?plan True = EnsureFresh dbFile # ?plan False"
    by (simp add: selfcheck_plan_def)
  from run show ?thesis
    unfolding dbFile_def [symmetric] opts_def [symmetric] lg_def [symmetric]
  proof (cases rule: startSelfCheck_run)
    case (threw f)
    let ?evs = "selfcheck_banner opts @ [ExistsSync dbFile True, UnlinkSync dbFile (Inl (EPERM dbFile))]"
    from threw have tr: "trace s' = trace s @ ?evs" and ex: "files (sys s) dbFile \<noteq> None"
      and r: "r \<noteq> ReturnsUndefined"
      by (simp_all add: dbFile_def opts_def)
    have "announced lg [ExistsSync dbFile True, UnlinkSync dbFile (Inl (EPERM dbFile))]"
      by (simp add: progress_of_def)
    then have f: "announced lg ?evs"
      by (simp add: announced_append)
    have b: "prefix (steps ?evs) (?plan (files (sys s) dbFile \<noteq> None))"
      using ex by (simp add: plan_removing)
    have c: "list_all (\<lambda>ev. failure ev = None) ?evs \<longrightarrow>
        steps ?evs = ?plan (files (sys s) dbFile \<noteq> None)"
      by (simp add: err_of_def)
    have d: "each_after_success ?evs"
      by (simp add: each_after_success_append)
    have e: "lines ?evs = (if lg then StartingSelfCheck # progress ?evs @
          (if AppQuit \<in> set ?evs then [SelfCheckDone] else []) else [])"
      by (simp add: line_of_def progress_of_def lg_def)
    have g: "r = ReturnsUndefined \<longrightarrow>
          (\<exists>rest. ?evs = selfcheck_banner opts @ removal_events True dbFile (sys s) @
             InitDatabase dbFile (fst (dbApi_initDatabase c dbFile (removed True dbFile (sys s)))) # rest)"
      using r by simp
    from tr b c d e f g show "\<exists>evs. trace s' = trace s @ evs \<and>
       prefix (steps evs)
         (selfcheck_plan (files (sys s) dbFile \<noteq> None) dbFile (args_zclPropertiesFile a)
            (args_genTemplateJsonFile a)) \<and>
       (list_all (\<lambda>ev. failure ev = None) evs \<longrightarrow>
          steps evs = selfcheck_plan (files (sys s) dbFile \<noteq> None) dbFile (args_zclPropertiesFile a)
            (args_genTemplateJsonFile a)) \<and>
       each_after_success evs \<and>
       lines evs = (if lg then StartingSelfCheck # progress evs @
          (if AppQuit \<in> set evs then [SelfCheckDone] else []) else []) \<and>
       announced lg evs \<and>
       (r = ReturnsUndefined \<longrightarrow>
          (\<exists>rest. evs = selfcheck_banner opts @ removal_events True dbFile (sys s) @
             InitDatabase dbFile (fst (dbApi_initDatabase c dbFile (removed True dbFile (sys s)))) # rest))"
      by (intro exI [of _ ?evs]) blast
  next
    case (chained rc s0 s1)
    define r1 where "r1 = fst (dbApi_initDatabase c dbFile (removed True dbFile (sys s)))"
    define pre where "pre = selfcheck_banner opts @ removal_events True dbFile (sys s)"
    from chained have ch: "startSelfCheck_chain c a opts dbFile s0 = (rc, s1)"
      and s0: "sys s0 = removed True dbFile (sys s)" "trace s0 = trace s @ pre"
      by (simp_all add: dbFile_def opts_def pre_def)
    have "dbApi_initDatabase c dbFile (sys s0) = (r1, snd (dbApi_initDatabase c dbFile (sys s0)))"
      by (simp add: r1_def s0)
    from selfcheck_chain_shape [OF ch this] obtain rest where
      tr1: "trace s1 = trace s0 @ InitDatabase dbFile r1 # rest"
      and pf: "prefix (steps (InitDatabase dbFile r1 # rest)) (?plan False)"
      and full: "list_all (\<lambda>ev. failure ev = None) (InitDatabase dbFile r1 # rest) \<longrightarrow>
          steps (InitDatabase dbFile r1 # rest) = ?plan False"
      and eas: "each_after_success (InitDatabase dbFile r1 # rest)"
      and ln: "lines (InitDatabase dbFile r1 # rest) =
         (if lg then progress (InitDatabase dbFile r1 # rest) @
            (if AppQuit \<in> set rest then [SelfCheckDone] else []) else [])"
      and ann: "announced lg (InitDatabase dbFile r1 # rest)"
      and rej: "\<forall>e. rc = Inl e \<longrightarrow> \<not> list_all (\<lambda>ev. failure ev = None) (InitDatabase dbFile r1 # rest)"
      unfolding lg_def by blast
    let ?mid = "InitDatabase dbFile r1 # rest"
    from selfcheck_dropped [OF chained(3) tr1 rej, of lg] obtain tail where
      tr: "trace s' = trace s0 @ ?mid @ tail"
      and tail: "steps tail = []" "lines tail = []" "progress tail = []" "AppQuit \<notin> set tail"
        "announced lg (?mid @ tail) = announced lg ?mid"
        "each_after_success (?mid @ tail) = each_after_success ?mid"
        "list_all (\<lambda>ev. failure ev = None) (?mid @ tail) \<longrightarrow> tail = []"
      by blast
    let ?evs = "pre @ ?mid @ tail"
    have pre: "steps pre = (if files (sys s) dbFile \<noteq> None then [EnsureFresh dbFile] else [])"
      "list_all (\<lambda>ev. failure ev = None) pre" "list_all (\<lambda>ev. progress_of ev = None) pre"
      "progress pre = []" "lines pre = (if lg then [StartingSelfCheck] else [])" "AppQuit \<notin> set pre"
      by (simp_all add: pre_def lg_def)
    have 1: "trace s' = trace s @ ?evs" using tr s0 by simp
    have 2: "prefix (steps ?evs) (?plan (files (sys s) dbFile \<noteq> None))"
      using pf pre(1) tail(1) plan [of "files (sys s) dbFile \<noteq> None"] by simp
    have 3: "list_all (\<lambda>ev. failure ev = None) ?evs \<longrightarrow> steps ?evs = ?plan (files (sys s) dbFile \<noteq> None)"
      using full pre(1) tail(1) plan [of "files (sys s) dbFile \<noteq> None"] by simp
    have 4: "each_after_success ?evs"
      using eas tail(6) each_after_success_append [OF pre(2), of "?mid @ tail"] by simp
    have 5: "lines ?evs = (if lg then StartingSelfCheck # progress ?evs @
          (if AppQuit \<in> set ?evs then [SelfCheckDone] else []) else [])"
      using ln pre(4,5,6) tail(2,3,4) by (auto simp: line_of_def split: option.splits)
    have 6: "announced lg ?evs"
      using ann tail(5) announced_append [OF pre(3), of lg "?mid @ tail"] by simp
    have 7: "?evs = selfcheck_banner opts @ removal_events True dbFile (sys s) @
             InitDatabase dbFile (fst (dbApi_initDatabase c dbFile (removed True dbFile (sys s)))) #
             (rest @ tail)"
      by (simp add: pre_def r1_def)
    from 1 2 3 4 5 6 7 show "\<exists>evs. trace s' = trace s @ evs \<and>
       prefix (steps evs)
         (selfcheck_plan (files (sys s) dbFile \<noteq> None) dbFile (args_zclPropertiesFile a)
            (args_genTemplateJsonFile a)) \<and>
       (list_all (\<lambda>ev. failure ev = None) evs \<longrightarrow>
          steps evs = selfcheck_plan (files (sys s) dbFile \<noteq> None) dbFile (args_zclPropertiesFile a)
            (args_genTemplateJsonFile a)) \<and>
       each_after_success evs \<and>
       lines evs = (if lg then StartingSelfCheck # progress evs @
          (if AppQuit \<in> set evs then [SelfCheckDone] else []) else []) \<and>
       announced lg evs \<and>
       (r = ReturnsUndefined \<longrightarrow>
          (\<exists>rest. evs = selfcheck_banner opts @ removal_events True dbFile (sys s) @
             InitDatabase dbFile (fst (dbApi_initDatabase c dbFile (removed True dbFile (sys s)))) # rest))"
      by (intro exI [of _ ?evs]) blast
  qed
qed

lemma startSelfCheck_independent:
  assumes same: "removed True (env_sqliteFile c (Some ''self-check'')) (sys s) =
      removed True (env_sqliteFile c (Some ''self-check'')) (sys t)"
    and rs: "startSelfCheck c a options_arg s = (ReturnsUndefined, s')"
    and rt: "startSelfCheck c a options_arg t = (ReturnsUndefined, t')"
  shows "sys s' = sys t' \<and>
     (\<exists>evs.
        trace s' = trace s @ selfcheck_banner (default_arg startSelfCheck_default options_arg) @
          removal_events True (env_sqliteFile c (Some ''self-check'')) (sys s) @ evs \<and>
        trace t' = trace t @ selfcheck_banner (default_arg startSelfCheck_default options_arg) @
          removal_events True (env_sqliteFile c (Some ''self-check'')) (sys t) @ evs)"
proof -
  define dbFile where "dbFile = env_sqliteFile c (Some ''self-check'')"
  define opts where "opts = default_arg startSelfCheck_default options_arg"
  obtain rz z where z: "startSelfCheck_chain c a opts dbFile
      \<lparr>sys = removed True dbFile (sys s), trace = []\<rparr> = (rz, z)"
    by (cases "startSelfCheck_chain c a opts dbFile \<lparr>sys = removed True dbFile (sys s), trace = []\<rparr>")
  define tail where "tail = (case rz of Inl e \<Rightarrow> [UnhandledRejection e] | Inr u \<Rightarrow> [])"
  have after: "sys u' = sys z \<and>
      trace u' = trace u @ selfcheck_banner opts @ removal_events True dbFile (sys u) @ trace z @ tail"
    if run: "startSelfCheck c a options_arg u = (ReturnsUndefined, u')"
      and u: "removed True dbFile (sys u) = removed True dbFile (sys s)" for u u'
    using run
  proof (cases rule: startSelfCheck_run)
    case (threw f)
    then show ?thesis by simp
  next
    case (chained rc s0 s1)
    from chained(2) have "(rc, s1) =
        (case startSelfCheck_chain c a opts dbFile \<lparr>sys = sys s0, trace = []\<rparr> of
           (rc, s1) \<Rightarrow> (rc, \<lparr>sys = sys s1, trace = trace s0 @ trace s1\<rparr>))"
      unfolding opts_def dbFile_def by (subst selfcheck_chain_frame [symmetric]) simp
    with chained(4) u z have "rc = rz" "sys s1 = sys z" "trace s1 = trace s0 @ trace z"
      by (simp_all add: dbFile_def)
    with chained(3,5) show ?thesis
      by (cases rz) (simp_all add: dropped_def tail_def opts_def dbFile_def)
  qed
  from after [OF rs] after [OF rt] same show ?thesis
    unfolding dbFile_def opts_def by auto
qed

text \<open>
  C8. Every self-check first removes a database file it finds at the path
  \<^verbatim>\<open>env.sqliteFile('self-check')\<close>, then starts, in this order and each only after the
  calls before it succeeded: open database (with the registration of the handle), load
  schema, load the metadata of \<^verbatim>\<open>args.zclPropertiesFile\<close>, load the templates of
  \<^verbatim>\<open>args.genTemplateJsonFile\<close>, and \<^verbatim>\<open>app.quit()\<close>. The database is opened on the world
  without the file. The console gets the opening line, the progress line of each of the four
  loading calls directly after the call succeeded, and the closing line of a complete run,
  exactly when \<^verbatim>\<open>options.log\<close> is truthy, and nothing otherwise. Two self-checks that start
  from worlds which differ only in the database file do the same from the open on and leave the
  same world: a run does not depend on what the run before it left in the file.
\<close>

theorem selfcheck_stages_lines_and_independence:
  "(startSelfCheck c a options_arg s = (r, s') \<longrightarrow>
      (\<exists>evs. trace s' = trace s @ evs \<and>
         prefix (steps evs)
           (selfcheck_plan (files (sys s) (env_sqliteFile c (Some ''self-check'')) \<noteq> None)
              (env_sqliteFile c (Some ''self-check'')) (args_zclPropertiesFile a)
              (args_genTemplateJsonFile a)) \<and>
         (list_all (\<lambda>ev. failure ev = None) evs \<longrightarrow>
            steps evs =
              selfcheck_plan (files (sys s) (env_sqliteFile c (Some ''self-check'')) \<noteq> None)
                (env_sqliteFile c (Some ''self-check'')) (args_zclPropertiesFile a)
                (args_genTemplateJsonFile a)) \<and>
         each_after_success evs \<and>
         lines evs =
           (if truthy (options_log (default_arg startSelfCheck_default options_arg))
            then StartingSelfCheck # progress evs @ (if AppQuit \<in> set evs then [SelfCheckDone] else [])
            else []) \<and>
         announced (truthy (options_log (default_arg startSelfCheck_default options_arg))) evs \<and>
         (r = ReturnsUndefined \<longrightarrow>
            (\<exists>rest. evs =
               selfcheck_banner (default_arg startSelfCheck_default options_arg) @
               removal_events True (env_sqliteFile c (Some ''self-check'')) (sys s) @
               InitDatabase (env_sqliteFile c (Some ''self-check''))
                 (fst (dbApi_initDatabase c (env_sqliteFile c (Some ''self-check''))
                    (removed True (env_sqliteFile c (Some ''self-check'')) (sys s)))) # rest)))) \<and>
   (removed True (env_sqliteFile c (Some ''self-check'')) (sys s) =
      removed True (env_sqliteFile c (Some ''self-check'')) (sys t) \<and>
    startSelfCheck c a options_arg s = (ReturnsUndefined, s1) \<and>
    startSelfCheck c a options_arg t = (ReturnsUndefined, t1) \<longrightarrow>
      sys s1 = sys t1 \<and>
      (\<exists>evs.
         trace s1 = trace s @ selfcheck_banner (default_arg startSelfCheck_default options_arg) @
           removal_events True (env_sqliteFile c (Some ''self-check'')) (sys s) @ evs \<and>
         trace t1 = trace t @ selfcheck_banner (default_arg startSelfCheck_default options_arg) @
           removal_events True (env_sqliteFile c (Some ''self-check'')) (sys t) @ evs))"
  using startSelfCheck_shape [of c a options_arg s r s']
    startSelfCheck_independent [of c s t a options_arg s1 t1]
  by blast

theorem selfcheck_stages_lines_and_independence_witness:
  "steps (trace (snd (startSelfCheck demo demo_args None (disk [(''self-check.sqlite'', ''sqlite'')])))) =
     [EnsureFresh ''self-check.sqlite'', OpenDatabase ''self-check.sqlite'', RegisterMainDatabase,
      ApplySchema, LoadDomainMetadata ''zcl-builtin.properties'',
      LoadTemplatePackage ''templates-builtin.json'', Quit] \<and>
   lines (trace (snd (startSelfCheck demo demo_args None (disk [(''self-check.sqlite'', ''sqlite'')])))) =
     [StartingSelfCheck, DatabaseInitialized, SchemaInitialized, ZclDataLoaded,
      GenerationTemplatesLoaded, SelfCheckDone] \<and>
   sys (snd (startSelfCheck demo demo_args None (disk []))) =
     sys (snd (startSelfCheck demo demo_args None (disk [(''self-check.sqlite'', ''sqlite'')])))"
proof -
  define s where "s = disk [(''self-check.sqlite'', ''sqlite'')]"
  define t :: "unit state" where "t = disk []"
  define evs where "evs = trace (snd (startSelfCheck demo demo_args None s))"
  have tr: "evs =
     [LogInitStdout, ConsoleLog StartingSelfCheck,
      ExistsSync ''self-check.sqlite'' True, UnlinkSync ''self-check.sqlite'' (Inr ()),
      InitDatabase ''self-check.sqlite'' (Inr 7), ConsoleLog DatabaseInitialized,
      ResolveMainDatabase 7 (Inr 7),
      LoadSchema 7 ''zap-schema.sql'' ''1.0'' (Inr 7), ConsoleLog SchemaInitialized,
      LoadZcl 7 ''zcl-builtin.properties'' (Inr \<lparr>ctx_db = 7, ctx_packageId = 1\<rparr>),
      ConsoleLog ZclDataLoaded,
      LoadTemplates 7 ''templates-builtin.json'' (Inr \<lparr>ctx_db = 7, ctx_packageId = 2\<rparr>),
      ConsoleLog GenerationTemplatesLoaded, ConsoleLog SelfCheckDone, AppQuit]"
    unfolding evs_def s_def
    by (simp add: startSelfCheck_def startSelfCheck_chain_def demo_exec demo_args_def)
  have quiet: "list_all (\<lambda>ev. failure ev = None) evs"
    unfolding tr by (simp add: err_of_def)
  have facts: "trace s = []" "files (sys s) ''self-check.sqlite'' \<noteq> None"
    "env_sqliteFile demo (Some ''self-check'') = ''self-check.sqlite''"
    "args_zclPropertiesFile demo_args = ''zcl-builtin.properties''"
    "args_genTemplateJsonFile demo_args = ''templates-builtin.json''"
    "truthy (options_log (default_arg startSelfCheck_default None))"
    by (simp_all add: s_def disk_def demo_def demo_args_def default_arg_def
        startSelfCheck_default_def truthy_def)
  have quits: "AppQuit \<in> set evs" and progress:
    "progress evs = [DatabaseInitialized, SchemaInitialized, ZclDataLoaded, GenerationTemplatesLoaded]"
    unfolding tr by (simp_all add: progress_of_def)
  from selfcheck_stages_lines_and_independence [where c = demo and a = demo_args
      and options_arg = None and s = s and r = "fst (startSelfCheck demo demo_args None s)"
      and s' = "snd (startSelfCheck demo demo_args None s)", THEN conjunct1]
    quiet facts quits progress
  have "steps evs = selfcheck_plan True ''self-check.sqlite'' ''zcl-builtin.properties''
        ''templates-builtin.json'' \<and>
      lines evs = StartingSelfCheck # progress evs @ [SelfCheckDone]"
    unfolding evs_def by auto
  with progress have shape: "steps evs =
     [EnsureFresh ''self-check.sqlite'', OpenDatabase ''self-check.sqlite'', RegisterMainDatabase,
      ApplySchema, LoadDomainMetadata ''zcl-builtin.properties'',
      LoadTemplatePackage ''templates-builtin.json'', Quit] \<and>
   lines evs =
     [StartingSelfCheck, DatabaseInitialized, SchemaInitialized, ZclDataLoaded,
      GenerationTemplatesLoaded, SelfCheckDone]"
    by (simp add: selfcheck_plan_def)
  have returns: "fst (startSelfCheck demo demo_args None s) = ReturnsUndefined"
    "fst (startSelfCheck demo demo_args None t) = ReturnsUndefined"
    unfolding s_def t_def
    by (simp_all add: startSelfCheck_def startSelfCheck_chain_def demo_exec demo_args_def)
  then have runs: "startSelfCheck demo demo_args None t =
      (ReturnsUndefined, snd (startSelfCheck demo demo_args None t))"
    "startSelfCheck demo demo_args None s =
      (ReturnsUndefined, snd (startSelfCheck demo demo_args None s))"
    by (metis surjective_pairing)+
  have same: "removed True (env_sqliteFile demo (Some ''self-check'')) (sys t) =
      removed True (env_sqliteFile demo (Some ''self-check'')) (sys s)"
    by (simp add: removed_def s_def t_def disk_def facts(3))
  from selfcheck_stages_lines_and_independence [where c = demo and a = demo_args
      and options_arg = None and s = t and t = s
      and ?s1.0 = "snd (startSelfCheck demo demo_args None t)"
      and ?t1.0 = "snd (startSelfCheck demo demo_args None s)", THEN conjunct2] same runs
  have "sys (snd (startSelfCheck demo demo_args None t)) =
      sys (snd (startSelfCheck demo demo_args None s))"
    by blast
  with shape show ?thesis unfolding evs_def s_def t_def by simp
qed


end
